theory Spec2Isabelle
  imports Complex_Main
begin

section \<open>Configuration and external collaborators\<close>

text \<open>
  The handlers read four strings from the process environment (\<open>CLIENT_KEY\<close>,
  \<open>CLIENT_SECRET\<close>, \<open>DEVICE_ID\<close>, \<open>WINE_DEVICE_ID\<close>); the API endpoint is a constant of
  the source. The environment is taken as already resolved to strings.
\<close>

record config =
  TUYA_ACCESS_ID :: string
  TUYA_ACCESS_SECRET :: string
  DEVICE_ID :: string
  DEVICE_ID_2 :: string

definition TUYA_API_ENDPOINT :: string where
  "TUYA_API_ENDPOINT = ''https://openapi.tuyaus.com''"

text \<open>
  Node's \<open>crypto\<close> module is an external library. Its two uses are parameters of the model:
  \<open>sha256_hex b\<close> is \<open>crypto.createHash('sha256').update(b).digest('hex')\<close> and
  \<open>hmac_sha256_hex k m\<close> is \<open>crypto.createHmac('sha256', k).update(m, 'utf8').digest('hex')\<close>.
\<close>

record crypto =
  sha256_hex :: "string \<Rightarrow> string"
  hmac_sha256_hex :: "string \<Rightarrow> string \<Rightarrow> string"

text \<open>\<open>String.prototype.toUpperCase\<close>, on the ASCII range (a hex digest has no other character).\<close>

definition toUpperCase_char :: "char \<Rightarrow> char" where
  "toUpperCase_char c =
     (if 97 \<le> (of_char c :: nat) \<and> (of_char c :: nat) \<le> 122
      then char_of ((of_char c :: nat) - 32) else c)"

definition toUpperCase :: "string \<Rightarrow> string" where
  "toUpperCase s = map toUpperCase_char s"

text \<open>\<open>Number.prototype.toString\<close> on an integer: its decimal digits, with a sign.\<close>

function string_of_nat :: "nat \<Rightarrow> string" where
  "string_of_nat n =
     (if n < 10 then [char_of (48 + n)]
      else string_of_nat (n div 10) @ [char_of (48 + n mod 10)])"
  by pat_completeness auto
termination
  by (relation "measure (\<lambda>n. n)") auto

declare string_of_nat.simps [simp del]

definition toString :: "int \<Rightarrow> string" where
  "toString i = (if i < 0 then CHR ''-'' # string_of_nat (nat (- i)) else string_of_nat (nat i))"

section \<open>Requests, responses and the upstream platform\<close>

record http_request =
  url :: string
  http_method :: string
  headers :: "(string \<times> string) list"

text \<open>
  What \<open>await fetch(...)\<close> followed by \<open>await response.json()\<close> yields: either a promise
  rejects with an error message, or there is an HTTP status with a parsed body.
\<close>

datatype 'a fetched = Rejected string | Response int 'a

text \<open>\<open>response.ok\<close>: the status is in the range 200 to 299.\<close>

definition ok :: "int \<Rightarrow> bool" where
  "ok st = (200 \<le> st \<and> st \<le> 299)"

text \<open>
  The token call's body \<open>{success, result: {access_token}}\<close>; \<open>token_result\<close> is \<open>None\<close>
  when the body has no \<open>result\<close>.
\<close>

record tokenData =
  token_success :: bool
  token_result :: "string option"

text \<open>
  The device call's body \<open>{success, result: {properties: [{code, value}, ...]}}\<close>. A
  property may come without a \<open>value\<close> (\<open>prop_value\<close> is \<open>None\<close>, the source's \<open>undefined\<close>); a
  value that is present is an integer reading of the platform (tenths of a degree,
  percent), held as a number. Both \<open>result\<close> and \<open>properties\<close> may be missing, as the
  optional chaining of the source allows.
\<close>

record property =
  prop_code :: string
  prop_value :: "int option"

record deviceResult =
  properties :: "property list option"

record deviceData =
  data_success :: bool
  data_result :: "deviceResult option"

text \<open>The errors that reach the \<open>catch\<close> block of a handler.\<close>

datatype js_error =
    FetchError string
  | TypeError
  | DeviceError string deviceData

text \<open>
  Everything one invocation observes from outside: the successive readings of
  \<open>Date.now()\<close>, the platform's answer to each request, and which of the two concurrent
  device queries settles first.
\<close>

record world =
  clock_now :: int
  clock_token :: int
  clock_api :: int
  tokenAnswer :: "http_request \<Rightarrow> tokenData fetched"
  deviceAnswer1 :: "http_request \<Rightarrow> deviceData fetched"
  deviceAnswer2 :: "http_request \<Rightarrow> deviceData fetched"
  second_settles_first :: bool

section \<open>JavaScript numbers\<close>

text \<open>
  A JavaScript number is an IEEE 754 double, and \<open>a / b\<close> is the real quotient rounded to
  the nearest double, ties to the even significand. \<open>to_double\<close> is that rounding on the
  reals: \<open>binary_exponent\<close> finds the binade of the magnitude (from -1022 down the spacing is
  that of the subnormal numbers), the spacing of the doubles there is \<open>2 powi (e - 52)\<close>, and
  the quotient by the spacing is rounded to an integer. Overflow to infinity is left out:
  the only division of the handlers is by 10, which cannot overflow.
\<close>

definition round_half_even :: "real \<Rightarrow> int" where
  "round_half_even y =
     (let f = \<lfloor>y\<rfloor>; d = y - of_int f
      in if d < 1 / 2 then f else if 1 / 2 < d then f + 1 else if even f then f else f + 1)"

function binary_exponent :: "real \<Rightarrow> int" where
  "binary_exponent x =
     (if x \<le> 0 then 0
      else if 2 \<le> x then binary_exponent (x / 2) + 1
      else if x < 1 then binary_exponent (2 * x) - 1
      else 0)"
  by pat_completeness auto
termination
proof (relation "measure (\<lambda>x. if 1 \<le> x then nat \<lfloor>x\<rfloor> else 1 + nat \<lceil>1 / x\<rceil>)")
  show "wf (measure (\<lambda>x::real. if 1 \<le> x then nat \<lfloor>x\<rfloor> else 1 + nat \<lceil>1 / x\<rceil>))"
    by simp
next
  fix x :: real
  assume "\<not> x \<le> 0" and "2 \<le> x"
  then have "\<lfloor>x / 2\<rfloor> < \<lfloor>x\<rfloor>" and "0 < \<lfloor>x\<rfloor>"
    by linarith+
  then show "(x / 2, x) \<in> measure (\<lambda>x. if 1 \<le> x then nat \<lfloor>x\<rfloor> else 1 + nat \<lceil>1 / x\<rceil>)"
    using \<open>2 \<le> x\<close> by simp
next
  fix x :: real
  assume pos: "\<not> x \<le> 0" and "\<not> 2 \<le> x" and lt: "x < 1"
  then have big: "1 < 1 / x"
    by simp
  show "(2 * x, x) \<in> measure (\<lambda>x. if 1 \<le> x then nat \<lfloor>x\<rfloor> else 1 + nat \<lceil>1 / x\<rceil>)"
  proof (cases "1 \<le> 2 * x")
    case True
    then have "\<lfloor>2 * x\<rfloor> = 1"
      using lt by linarith
    moreover have "2 \<le> \<lceil>1 / x\<rceil>"
      using big by linarith
    ultimately show ?thesis
      using True lt by simp
  next
    case False
    then have "2 < 1 / x"
      using pos by (simp add: field_simps)
    moreover have "1 / (2 * x) = (1 / x) / 2"
      by simp
    ultimately have "\<lceil>1 / (2 * x)\<rceil> < \<lceil>1 / x\<rceil>" and "0 < \<lceil>1 / x\<rceil>"
      by linarith+
    then show ?thesis
      using False lt by simp
  qed
qed

declare binary_exponent.simps [simp del]

definition to_double :: "real \<Rightarrow> real" where
  "to_double x =
     (if x = 0 then 0
      else
        let e = max (binary_exponent \<bar>x\<bar>) (- 1022);
            u = 2 powi (e - 52)
        in u * of_int (round_half_even (x / u)))"

definition js_divide :: "real \<Rightarrow> real \<Rightarrow> real" where
  "js_divide a b = to_double (a / b)"

section \<open>Signing\<close>

definition tokenPath :: string where
  "tokenPath = ''/v1.0/token?grant_type=1''"

definition tokenSign :: "crypto \<Rightarrow> config \<Rightarrow> string \<Rightarrow> string \<Rightarrow> string" where
  "tokenSign cr cfg tokenTimestamp nonce =
     (let tokenMethod = ''GET'';
          tokenBody = '''';
          tokenContentHash = sha256_hex cr tokenBody;
          stringToSignForToken =
            tokenMethod @ ''\<newline>'' @ tokenContentHash @ ''\<newline>'' @ ''\<newline>'' @ tokenPath;
          stringToHmacForToken =
            TUYA_ACCESS_ID cfg @ tokenTimestamp @ nonce @ stringToSignForToken
      in toUpperCase (hmac_sha256_hex cr (TUYA_ACCESS_SECRET cfg) stringToHmacForToken))"

definition tokenRequest :: "crypto \<Rightarrow> config \<Rightarrow> string \<Rightarrow> string \<Rightarrow> http_request" where
  "tokenRequest cr cfg tokenTimestamp nonce =
     \<lparr>url = TUYA_API_ENDPOINT @ tokenPath,
      http_method = ''GET'',
      headers =
        [(''client_id'', TUYA_ACCESS_ID cfg),
         (''sign'', tokenSign cr cfg tokenTimestamp nonce),
         (''sign_method'', ''HMAC-SHA256''),
         (''t'', tokenTimestamp),
         (''nonce'', nonce),
         (''Content-Type'', ''application/json'')]\<rparr>"

definition apiPath :: "string \<Rightarrow> string" where
  "apiPath deviceId = ''/v2.0/cloud/thing/'' @ deviceId @ ''/shadow/properties''"

definition apiSign :: "crypto \<Rightarrow> config \<Rightarrow> string \<Rightarrow> string \<Rightarrow> string \<Rightarrow> string \<Rightarrow> string" where
  "apiSign cr cfg accessToken apiTimestamp nonce deviceId =
     (let method = ''GET'';
          body = '''';
          contentHash = sha256_hex cr body;
          stringToSignForApiRequest =
            method @ ''\<newline>'' @ contentHash @ ''\<newline>'' @ ''\<newline>'' @ apiPath deviceId;
          stringToHmac =
            TUYA_ACCESS_ID cfg @ accessToken @ apiTimestamp @ nonce @ stringToSignForApiRequest
      in toUpperCase (hmac_sha256_hex cr (TUYA_ACCESS_SECRET cfg) stringToHmac))"

definition deviceRequest ::
    "crypto \<Rightarrow> config \<Rightarrow> string \<Rightarrow> string \<Rightarrow> string \<Rightarrow> string \<Rightarrow> http_request" where
  "deviceRequest cr cfg accessToken apiTimestamp nonce deviceId =
     \<lparr>url = TUYA_API_ENDPOINT @ apiPath deviceId,
      http_method = ''GET'',
      headers =
        [(''client_id'', TUYA_ACCESS_ID cfg),
         (''access_token'', accessToken),
         (''sign'', apiSign cr cfg accessToken apiTimestamp nonce deviceId),
         (''sign_method'', ''HMAC-SHA256''),
         (''t'', apiTimestamp),
         (''nonce'', nonce),
         (''Content-Type'', ''application/json'')]\<rparr>"

text \<open>
  The Signer as the specification words it, in its four steps, for comparison with
  \<open>tokenSign\<close> and \<open>apiSign\<close>.
\<close>

definition spec_signature ::
    "crypto \<Rightarrow> string \<Rightarrow> string \<Rightarrow> string \<Rightarrow> string \<Rightarrow> string option \<Rightarrow> string \<Rightarrow> string \<Rightarrow> string
       \<Rightarrow> string" where
  "spec_signature cr method urlPath requestBody clientId accessToken timestamp nonce secret =
     toUpperCase (hmac_sha256_hex cr secret
       (clientId @ (case accessToken of None \<Rightarrow> '''' | Some tok \<Rightarrow> tok) @ timestamp @ nonce @
        method @ ''\<newline>'' @ sha256_hex cr requestBody @ ''\<newline>'' @ ''\<newline>'' @ urlPath))"

section \<open>Extraction of a reading\<close>

record sensorData =
  temperature :: int
  humidity :: int

definition is_temperature :: "property \<Rightarrow> bool" where
  "is_temperature s = (prop_code s = ''temp_current'' \<or> prop_code s = ''va_temperature'')"

definition is_humidity :: "property \<Rightarrow> bool" where
  "is_humidity s = (prop_code s = ''humidity_value'' \<or> prop_code s = ''va_humidity'')"

text \<open>
  \<open>extractSensorData\<close> of the two-device handler. \<open>None\<close> at each step is the source's
  \<open>undefined\<close>: no property list, no property that matches, or a matching property without
  a value. The result \<open>None\<close> is its \<open>null\<close>. The temperature is \<open>Math.floor\<close> of the double
  quotient \<open>temperature / 10\<close>.
\<close>

definition raw_properties :: "deviceData \<Rightarrow> property list option" where
  "raw_properties data = (case data_result data of None \<Rightarrow> None | Some r \<Rightarrow> properties r)"

definition raw_temperature :: "deviceData \<Rightarrow> int option" where
  "raw_temperature data =
     (case raw_properties data of
        None \<Rightarrow> None
      | Some ps \<Rightarrow> (case find is_temperature ps of None \<Rightarrow> None | Some s \<Rightarrow> prop_value s))"

definition raw_humidity :: "deviceData \<Rightarrow> int option" where
  "raw_humidity data =
     (case raw_properties data of
        None \<Rightarrow> None
      | Some ps \<Rightarrow> (case find is_humidity ps of None \<Rightarrow> None | Some s \<Rightarrow> prop_value s))"

definition extractSensorData :: "deviceData \<Rightarrow> string \<Rightarrow> sensorData option" where
  "extractSensorData data deviceId =
     (case raw_temperature data of
        None \<Rightarrow> None
      | Some t \<Rightarrow>
          (case raw_humidity data of
             None \<Rightarrow> None
           | Some h \<Rightarrow>
               Some \<lparr>temperature = \<lfloor>js_divide (real_of_int t) 10\<rfloor>, humidity = min h 65\<rparr>))"

text \<open>
  The integer division of the specification's wording, truncating toward zero, for
  comparison with the temperature that \<open>extractSensorData\<close> computes.
\<close>

definition spec_truncating_div :: "int \<Rightarrow> int \<Rightarrow> int" where
  "spec_truncating_div a b = sgn a * sgn b * (\<bar>a\<bar> div \<bar>b\<bar>)"

text \<open>
  The extraction of the specification's wording: for each measurement the aliases are
  tried in their listed order, and the first alias that occurs in the list is taken.
\<close>

definition spec_lookup :: "string list \<Rightarrow> property list \<Rightarrow> int option" where
  "spec_lookup aliases ps =
     (case List.map_filter (\<lambda>a. find (\<lambda>s. prop_code s = a) ps) aliases of
        [] \<Rightarrow> None | s # _ \<Rightarrow> prop_value s)"

definition spec_extract :: "property list \<Rightarrow> sensorData option" where
  "spec_extract ps =
     (case spec_lookup [''temp_current'', ''va_temperature''] ps of
        None \<Rightarrow> None
      | Some t \<Rightarrow>
          (case spec_lookup [''humidity_value'', ''va_humidity''] ps of
             None \<Rightarrow> None
           | Some h \<Rightarrow>
               Some \<lparr>temperature = \<lfloor>js_divide (real_of_int t) 10\<rfloor>, humidity = min h 65\<rparr>))"

section \<open>The cache of the two-device handler\<close>

record reading = sensorData +
  unit :: string

record payload =
  device :: reading
  wine_device :: reading

text \<open>The module-level variables \<open>cachedData\<close> (\<open>None\<close> is \<open>null\<close>) and \<open>lastFetchTimestamp\<close>.\<close>

record cache =
  cachedData :: "payload option"
  lastFetchTimestamp :: int

definition initial_cache :: cache where
  "initial_cache = \<lparr>cachedData = None, lastFetchTimestamp = 0\<rparr>"

definition CACHE_DURATION :: int where
  "CACHE_DURATION = 5 * 60 * 1000"

text \<open>
  The cache check at the head of the handler,
  \<open>cachedData && (now - lastFetchTimestamp < CACHE_DURATION)\<close>, yielding what is served.
\<close>

definition cache_get :: "cache \<Rightarrow> int \<Rightarrow> payload option" where
  "cache_get c now =
     (case cachedData c of
        None \<Rightarrow> None
      | Some p \<Rightarrow> if now - lastFetchTimestamp c < CACHE_DURATION then Some p else None)"

text \<open>The two assignments that update the cache.\<close>

definition cache_put :: "cache \<Rightarrow> payload \<Rightarrow> int \<Rightarrow> cache" where
  "cache_put c responseData now = c\<lparr>cachedData := Some responseData, lastFetchTimestamp := now\<rparr>"

section \<open>The two-device handler\<close>

record request =
  req_method :: string

datatype body =
    End
  | MethodNotAllowed
  | Readings payload
  | TokenFailure tokenData
  | NotFound "sensorData option" "sensorData option" deviceData deviceData
  | InternalServerError js_error

record response =
  status :: int
  body :: body

text \<open>
  What one invocation does: its response, the cache it leaves, and the requests it has
  sent to the platform, in the order sent.
\<close>

record outcome =
  sent :: response
  cache_after :: cache
  calls :: "http_request list"

text \<open>The tail of \<open>fetchDeviceData\<close>, once the platform has answered.\<close>

definition fetchDeviceData :: "string \<Rightarrow> deviceData fetched \<Rightarrow> js_error + deviceData" where
  "fetchDeviceData deviceId answer =
     (case answer of
        Rejected msg \<Rightarrow> Inl (FetchError msg)
      | Response st data \<Rightarrow>
          if \<not> ok st \<or> \<not> data_success data then Inl (DeviceError deviceId data)
          else Inr data)"

text \<open>
  \<open>Promise.all\<close> of two promises: both values when both fulfil, else the rejection that
  comes first in time.
\<close>

definition promise_all :: "bool \<Rightarrow> js_error + 'a \<Rightarrow> js_error + 'a \<Rightarrow> js_error + ('a \<times> 'a)" where
  "promise_all second_first p1 p2 =
     (case p1 of
        Inr a \<Rightarrow> (case p2 of Inr b \<Rightarrow> Inr (a, b) | Inl e2 \<Rightarrow> Inl e2)
      | Inl e1 \<Rightarrow> (case p2 of Inr b \<Rightarrow> Inl e1 | Inl e2 \<Rightarrow> Inl (if second_first then e2 else e1)))"

definition handler :: "crypto \<Rightarrow> config \<Rightarrow> world \<Rightarrow> request \<Rightarrow> cache \<Rightarrow> outcome" where
  "handler cr cfg w req c =
     (if req_method req = ''OPTIONS'' then
        \<lparr>sent = \<lparr>status = 200, body = End\<rparr>, cache_after = c, calls = []\<rparr>
      else if req_method req \<noteq> ''GET'' then
        \<lparr>sent = \<lparr>status = 405, body = MethodNotAllowed\<rparr>, cache_after = c, calls = []\<rparr>
      else
       (let now = clock_now w in
        (case cache_get c now of
          Some p \<Rightarrow> \<lparr>sent = \<lparr>status = 200, body = Readings p\<rparr>, cache_after = c, calls = []\<rparr>
        | None \<Rightarrow>
           (let nonce = '''';
                tokenTimestamp = toString (clock_token w);
                tokenReq = tokenRequest cr cfg tokenTimestamp nonce
            in
            (case tokenAnswer w tokenReq of
              Rejected msg \<Rightarrow>
                \<lparr>sent = \<lparr>status = 500, body = InternalServerError (FetchError msg)\<rparr>,
                 cache_after = c, calls = [tokenReq]\<rparr>
            | Response tokenStatus tokenData \<Rightarrow>
               (if \<not> ok tokenStatus \<or> \<not> token_success tokenData then
                  \<lparr>sent = \<lparr>status = tokenStatus, body = TokenFailure tokenData\<rparr>,
                   cache_after = c, calls = [tokenReq]\<rparr>
                else
                 (case token_result tokenData of
                    None \<Rightarrow>
                      \<lparr>sent = \<lparr>status = 500, body = InternalServerError TypeError\<rparr>,
                       cache_after = c, calls = [tokenReq]\<rparr>
                  | Some accessToken \<Rightarrow>
                     (let apiTimestamp = toString (clock_api w);
                          req1 = deviceRequest cr cfg accessToken apiTimestamp nonce (DEVICE_ID cfg);
                          req2 = deviceRequest cr cfg accessToken apiTimestamp nonce (DEVICE_ID_2 cfg);
                          issued = [tokenReq, req1, req2]
                      in
                      (case promise_all (second_settles_first w)
                             (fetchDeviceData (DEVICE_ID cfg) (deviceAnswer1 w req1))
                             (fetchDeviceData (DEVICE_ID_2 cfg) (deviceAnswer2 w req2)) of
                        Inl err \<Rightarrow>
                          \<lparr>sent = \<lparr>status = 500, body = InternalServerError err\<rparr>,
                           cache_after = c, calls = issued\<rparr>
                      | Inr (device1Data, device2Data) \<Rightarrow>
                         (let device1SensorData = extractSensorData device1Data (DEVICE_ID cfg);
                              device2SensorData = extractSensorData device2Data (DEVICE_ID_2 cfg)
                          in
                          (case device1SensorData of
                            None \<Rightarrow>
                              \<lparr>sent = \<lparr>status = 404,
                                       body = NotFound device1SensorData device2SensorData
                                                device1Data device2Data\<rparr>,
                               cache_after = c, calls = issued\<rparr>
                          | Some s1 \<Rightarrow>
                              (case device2SensorData of
                                 None \<Rightarrow>
                                   \<lparr>sent = \<lparr>status = 404,
                                            body = NotFound device1SensorData device2SensorData
                                                     device1Data device2Data\<rparr>,
                                    cache_after = c, calls = issued\<rparr>
                               | Some s2 \<Rightarrow>
                                  (let responseData =
                                         \<lparr>device = sensorData.extend s1 \<lparr>unit = ''celsius''\<rparr>,
                                          wine_device = sensorData.extend s2 \<lparr>unit = ''celsius''\<rparr>\<rparr>
                                   in
                                   \<lparr>sent = \<lparr>status = 200, body = Readings responseData\<rparr>,
                                    cache_after = cache_put c responseData now,
                                    calls = issued\<rparr>)))))))))))))"

section \<open>The single-device handler\<close>

text \<open>
  The response of \<open>api/temp_hum.js\<close> on success, \<open>{deviceId, temperature, humidity, unit,
  fullTuyaResponse}\<close>. Its temperature is the double quotient \<open>temperature / 10\<close> itself, a
  number that need not be an integer.
\<close>

record single_reading =
  single_deviceId :: string
  single_temperature :: real
  single_humidity :: int
  single_unit :: string
  fullTuyaResponse :: deviceData

datatype single_body =
    SEnd
  | SMethodNotAllowed
  | SReading single_reading
  | STokenFailure tokenData
  | SDeviceFailure deviceData
  | SNotFound deviceData
  | SInternalServerError js_error

record single_response =
  single_status :: int
  single_body :: single_body

definition single_handler ::
    "crypto \<Rightarrow> config \<Rightarrow> world \<Rightarrow> request \<Rightarrow> single_response \<times> http_request list" where
  "single_handler cr cfg w req =
     (if req_method req = ''OPTIONS'' then (\<lparr>single_status = 200, single_body = SEnd\<rparr>, [])
      else if req_method req \<noteq> ''GET'' then
        (\<lparr>single_status = 405, single_body = SMethodNotAllowed\<rparr>, [])
      else
       (let nonce = '''';
            tokenTimestamp = toString (clock_token w);
            tokenReq = tokenRequest cr cfg tokenTimestamp nonce
        in
        (case tokenAnswer w tokenReq of
          Rejected msg \<Rightarrow>
            (\<lparr>single_status = 500, single_body = SInternalServerError (FetchError msg)\<rparr>,
             [tokenReq])
        | Response tokenStatus tokenData \<Rightarrow>
           (if \<not> ok tokenStatus \<or> \<not> token_success tokenData then
              (\<lparr>single_status = tokenStatus, single_body = STokenFailure tokenData\<rparr>, [tokenReq])
            else
             (case token_result tokenData of
                None \<Rightarrow>
                  (\<lparr>single_status = 500, single_body = SInternalServerError TypeError\<rparr>,
                   [tokenReq])
              | Some accessToken \<Rightarrow>
                 (let apiTimestamp = toString (clock_api w);
                      req1 = deviceRequest cr cfg accessToken apiTimestamp nonce (DEVICE_ID cfg)
                  in
                  (case deviceAnswer1 w req1 of
                    Rejected msg \<Rightarrow>
                      (\<lparr>single_status = 500,
                        single_body = SInternalServerError (FetchError msg)\<rparr>,
                       [tokenReq, req1])
                  | Response st data \<Rightarrow>
                     (if \<not> ok st \<or> \<not> data_success data then
                        (\<lparr>single_status = st, single_body = SDeviceFailure data\<rparr>,
                         [tokenReq, req1])
                      else
                       (case raw_temperature data of
                          None \<Rightarrow>
                            (\<lparr>single_status = 404, single_body = SNotFound data\<rparr>,
                             [tokenReq, req1])
                        | Some t \<Rightarrow>
                            (case raw_humidity data of
                               None \<Rightarrow>
                                 (\<lparr>single_status = 404, single_body = SNotFound data\<rparr>,
                                  [tokenReq, req1])
                             | Some h \<Rightarrow>
                                 (\<lparr>single_status = 200,
                                   single_body = SReading
                                     \<lparr>single_deviceId = DEVICE_ID cfg,
                                      single_temperature = js_divide (real_of_int t) 10,
                                      single_humidity = h,
                                      single_unit = ''celsius'',
                                      fullTuyaResponse = data\<rparr>\<rparr>,
                                  [tokenReq, req1])))))))))))"

section \<open>Notions used in the statements\<close>

text \<open>The property list of a device body, empty when the body carries none.\<close>

definition props_of :: "deviceData \<Rightarrow> property list" where
  "props_of data = (case raw_properties data of None \<Rightarrow> [] | Some ps \<Rightarrow> ps)"

text \<open>
  A device query fails when its promise rejects, when the HTTP status is not a success, or
  when the body's \<open>success\<close> flag is false.
\<close>

definition device_query_failed :: "deviceData fetched \<Rightarrow> bool" where
  "device_query_failed answer =
     (case answer of
        Rejected msg \<Rightarrow> True
      | Response st data \<Rightarrow> \<not> ok st \<or> \<not> data_success data)"

text \<open>
  The reading for the first device that each handler puts in a successful response, as a
  pair of numbers (temperature, humidity).
\<close>

definition multi_reading_of :: "outcome \<Rightarrow> (real \<times> int) option" where
  "multi_reading_of out =
     (case body (sent out) of
        Readings p \<Rightarrow> Some (real_of_int (temperature (device p)), humidity (device p))
      | _ \<Rightarrow> None)"

definition single_reading_of :: "single_response \<times> http_request list \<Rightarrow> (real \<times> int) option" where
  "single_reading_of out =
     (case single_body (fst out) of
        SReading r \<Rightarrow> Some (single_temperature r, single_humidity r)
      | _ \<Rightarrow> None)"

section \<open>Sample inputs\<close>

definition device_body :: "property list \<Rightarrow> deviceData" where
  "device_body ps = \<lparr>data_success = True, data_result = Some \<lparr>properties = Some ps\<rparr>\<rparr>"

definition mkprop :: "string \<Rightarrow> int \<Rightarrow> property" where
  "mkprop c v = \<lparr>prop_code = c, prop_value = Some v\<rparr>"

text \<open>A stand-in for the crypto library; no statement depends on what it returns.\<close>

definition ex_crypto :: crypto where
  "ex_crypto = \<lparr>sha256_hex = (\<lambda>b. ''e3b0''), hmac_sha256_hex = (\<lambda>k m. ''a1f9'')\<rparr>"

definition ex_config :: config where
  "ex_config =
     \<lparr>TUYA_ACCESS_ID = ''id'', TUYA_ACCESS_SECRET = ''secret'',
      DEVICE_ID = ''D1'', DEVICE_ID_2 = ''D2''\<rparr>"

definition ex_get :: request where
  "ex_get = \<lparr>req_method = ''GET''\<rparr>"

text \<open>
  A platform that issues the token \<open>T1\<close> and answers the two device queries as given; the
  clock reads 1000, 1001 and 1002 milliseconds.
\<close>

definition ex_world :: "deviceData fetched \<Rightarrow> deviceData fetched \<Rightarrow> world" where
  "ex_world a1 a2 =
     \<lparr>clock_now = 1000, clock_token = 1001, clock_api = 1002,
      tokenAnswer = (\<lambda>r. Response 200 \<lparr>token_success = True, token_result = Some ''T1''\<rparr>),
      deviceAnswer1 = (\<lambda>r. a1),
      deviceAnswer2 = (\<lambda>r. a2),
      second_settles_first = False\<rparr>"

definition ex_body_235_70 :: deviceData where
  "ex_body_235_70 = device_body [mkprop ''temp_current'' 235, mkprop ''humidity_value'' 70]"

definition ex_body_180_40 :: deviceData where
  "ex_body_180_40 = device_body [mkprop ''va_temperature'' 180, mkprop ''va_humidity'' 40]"

definition ex_body_reordered :: deviceData where
  "ex_body_reordered =
     device_body [mkprop ''va_temperature'' 100, mkprop ''temp_current'' 200,
                  mkprop ''humidity_value'' 50]"

definition ex_body_no_value :: deviceData where
  "ex_body_no_value =
     device_body [\<lparr>prop_code = ''temp_current'', prop_value = None\<rparr>,
                  mkprop ''va_temperature'' 100, mkprop ''humidity_value'' 50]"

definition ex_body_no_humidity :: deviceData where
  "ex_body_no_humidity = device_body [mkprop ''temp_current'' 235]"

definition ex_payload :: payload where
  "ex_payload =
     \<lparr>device = \<lparr>temperature = 23, humidity = 65, unit = ''celsius''\<rparr>,
      wine_device = \<lparr>temperature = 18, humidity = 40, unit = ''celsius''\<rparr>\<rparr>"

section \<open>Facts about the double quotient\<close>

lemma round_half_even_of_int: "round_half_even (of_int n) = n"
  by (simp add: round_half_even_def)

lemma round_half_even_error: "\<bar>of_int (round_half_even y) - y\<bar> \<le> 1 / 2"
  unfolding round_half_even_def Let_def by (auto; linarith)

lemma binary_exponent_lower: "0 < x \<Longrightarrow> 2 powi (binary_exponent x) \<le> x"
proof (induction x rule: binary_exponent.induct)
  case (1 x)
  show ?case
  proof (cases "2 \<le> x")
    case True
    then have "2 powi binary_exponent (x / 2) \<le> x / 2"
      using 1 by simp
    moreover have "binary_exponent x = binary_exponent (x / 2) + 1"
      using True 1(3) by (subst binary_exponent.simps) simp
    ultimately show ?thesis
      by (simp add: power_int_add)
  next
    case False
    show ?thesis
    proof (cases "x < 1")
      case True
      then have "2 powi binary_exponent (2 * x) \<le> 2 * x"
        using 1 False by simp
      moreover have "binary_exponent x = binary_exponent (2 * x) - 1"
        using True False 1(3) by (subst binary_exponent.simps) simp
      ultimately show ?thesis
        by (simp add: power_int_diff)
    next
      case ge: False
      then have "binary_exponent x = 0"
        using False 1(3) by (subst binary_exponent.simps) simp
      then show ?thesis
        using ge by simp
    qed
  qed
qed

lemma binary_exponent_small:
  assumes "0 < x" and "x < 2 ^ 50"
  shows "binary_exponent x \<le> 49"
proof (rule ccontr)
  assume "\<not> binary_exponent x \<le> 49"
  then have "50 \<le> binary_exponent x"
    by simp
  then have "(2::real) powi 50 \<le> 2 powi binary_exponent x"
    by (intro power_int_increasing) simp_all
  also have "\<dots> \<le> x"
    using assms(1) by (rule binary_exponent_lower)
  finally show False
    using assms(2) by simp
qed

lemma to_double_error:
  assumes "\<bar>x\<bar> < 2 ^ 50"
  shows "\<bar>to_double x - x\<bar> \<le> 1 / 16"
proof (cases "x = 0")
  case True
  then show ?thesis
    by (simp add: to_double_def)
next
  case False
  define e where "e = max (binary_exponent \<bar>x\<bar>) (- 1022)"
  define u :: real where "u = 2 powi (e - 52)"
  have td: "to_double x = u * of_int (round_half_even (x / u))"
    using False by (simp add: to_double_def Let_def e_def u_def)
  have "binary_exponent \<bar>x\<bar> \<le> 49"
    using False assms by (intro binary_exponent_small) simp_all
  then have "e - 52 \<le> - 3"
    by (simp add: e_def)
  then have "u \<le> 2 powi (- 3)"
    unfolding u_def by (intro power_int_increasing) simp_all
  then have u8: "u \<le> 1 / 8"
    by (simp add: power_int_minus_divide)
  have upos: "0 < u"
    by (simp add: u_def)
  have "\<bar>to_double x - x\<bar> = u * \<bar>of_int (round_half_even (x / u)) - x / u\<bar>"
  proof -
    have "to_double x - x = u * (of_int (round_half_even (x / u)) - x / u)"
      using upos by (simp add: td algebra_simps)
    then show ?thesis
      using upos by (simp add: abs_mult)
  qed
  also have "\<dots> \<le> u * (1 / 2)"
    using upos round_half_even_error [of "x / u"] by (intro mult_left_mono) simp_all
  also have "\<dots> \<le> 1 / 16"
    using u8 by simp
  finally show ?thesis .
qed

lemma to_double_half_integer:
  assumes "\<bar>x\<bar> < 2 ^ 50" and "x = of_int k / 2"
  shows "to_double x = x"
proof (cases "x = 0")
  case True
  then show ?thesis
    by (simp add: to_double_def)
next
  case False
  define e where "e = max (binary_exponent \<bar>x\<bar>) (- 1022)"
  define m where "m = nat (51 - e)"
  have td: "to_double x = 2 powi (e - 52) * of_int (round_half_even (x / 2 powi (e - 52)))"
    using False by (simp add: to_double_def Let_def e_def)
  have "binary_exponent \<bar>x\<bar> \<le> 49"
    using False assms(1) by (intro binary_exponent_small) simp_all
  then have e: "e \<le> 49"
    by (simp add: e_def)
  then have em: "e - 52 = - int (Suc m)"
    by (simp add: m_def)
  have "(2::real) powi (- int (Suc m)) = 1 / 2 ^ Suc m"
    by (simp only: power_int_minus_divide power_int_of_nat)
  then have u: "(2::real) powi (e - 52) = 1 / (2 * 2 ^ m)"
    by (simp add: em)
  have q: "x / 2 powi (e - 52) = of_int (k * 2 ^ m)"
    by (simp add: u assms(2))
  then have "round_half_even (x / 2 powi (e - 52)) = k * 2 ^ m"
    by (simp only: round_half_even_of_int)
  then have "to_double x = 2 powi (e - 52) * (x / 2 powi (e - 52))"
    by (simp only: td q)
  also have "\<dots> = x"
    by simp
  finally show ?thesis .
qed

lemma to_double_of_int:
  assumes "\<bar>n\<bar> < 2 ^ 50"
  shows "to_double (of_int n) = of_int n"
proof -
  have "\<bar>real_of_int n\<bar> < 2 ^ 50"
    using assms by (metis of_int_abs of_int_less_numeral_power_cancel_iff)
  moreover have "real_of_int n = of_int (2 * n) / 2"
    by simp
  ultimately show ?thesis
    by (rule to_double_half_integer)
qed

lemma tenth_decompose: "real_of_int t / 10 = of_int (t div 10) + of_int (t mod 10) / 10"
proof -
  have "real_of_int t = of_int (10 * (t div 10) + t mod 10)"
    by simp
  also have "\<dots> = 10 * of_int (t div 10) + of_int (t mod 10)"
    by (simp only: of_int_add of_int_mult of_int_numeral)
  finally show ?thesis
    by simp
qed

lemma tenth_small:
  assumes "\<bar>t\<bar> \<le> 2 ^ 53"
  shows "\<bar>real_of_int t / 10\<bar> < 2 ^ 50" and "\<bar>t div 10\<bar> < 2 ^ 50"
proof -
  have "\<bar>real_of_int t\<bar> \<le> 2 ^ 53"
    using assms by (metis of_int_abs of_int_le_numeral_power_cancel_iff)
  then show "\<bar>real_of_int t / 10\<bar> < 2 ^ 50"
    by simp
  show "\<bar>t div 10\<bar> < 2 ^ 50"
    using assms by simp
qed

lemma js_divide_tenth_exact:
  assumes "\<bar>t\<bar> \<le> 2 ^ 53" and "t mod 10 = 0"
  shows "js_divide (real_of_int t) 10 = of_int (t div 10)"
proof -
  have "real_of_int t / 10 = of_int (t div 10)"
    using assms(2) by (simp add: tenth_decompose)
  then show ?thesis
    using tenth_small(2) [OF assms(1)] by (simp add: js_divide_def to_double_of_int)
qed

lemma js_divide_tenth_between:
  assumes "\<bar>t\<bar> \<le> 2 ^ 53" and "t mod 10 \<noteq> 0"
  shows "of_int (t div 10) < js_divide (real_of_int t) 10"
    and "js_divide (real_of_int t) 10 < of_int (t div 10) + 1"
proof -
  have "1 \<le> t mod 10" and "t mod 10 \<le> 9"
    using assms(2) by presburger+
  then have r: "1 \<le> real_of_int (t mod 10)" "real_of_int (t mod 10) \<le> 9"
    by simp_all
  have err: "\<bar>js_divide (real_of_int t) 10 - real_of_int t / 10\<bar> \<le> 1 / 16"
    unfolding js_divide_def using tenth_small(1) [OF assms(1)] by (rule to_double_error)
  show "of_int (t div 10) < js_divide (real_of_int t) 10"
    using err r unfolding tenth_decompose [of t] by linarith
  show "js_divide (real_of_int t) 10 < of_int (t div 10) + 1"
    using err r unfolding tenth_decompose [of t] by linarith
qed

lemma floor_tenth:
  assumes "\<bar>t\<bar> \<le> 2 ^ 53"
  shows "\<lfloor>js_divide (real_of_int t) 10\<rfloor> = t div 10"
proof (cases "t mod 10 = 0")
  case True
  then show ?thesis
    by (simp add: js_divide_tenth_exact [OF assms])
next
  case False
  show ?thesis
    using js_divide_tenth_between [OF assms False] by linarith
qed

lemma js_divide_tenth_eq:
  assumes "\<bar>t\<bar> \<le> 2 ^ 53"
  shows "(js_divide (real_of_int t) 10 = real_of_int (t div 10)) = (t mod 10 = 0)"
  using js_divide_tenth_exact [OF assms] js_divide_tenth_between(1) [OF assms] by fastforce

lemma js_divide_235: "js_divide 235 10 = 47 / 2"
proof -
  have "to_double (47 / 2) = 47 / 2"
    by (rule to_double_half_integer [where k = 47]) simp_all
  then show ?thesis
    by (simp add: js_divide_def)
qed

lemma js_divide_beyond:
  "\<lfloor>js_divide (real_of_int 100000000000000016) 10\<rfloor> = 10000000000000002"
  by (simp add: js_divide_def to_double_def binary_exponent.simps round_half_even_def Let_def)

section \<open>Facts about the extraction\<close>

lemma extract_Some:
  "raw_temperature data = Some t \<Longrightarrow> raw_humidity data = Some h \<Longrightarrow> \<bar>t\<bar> \<le> 2 ^ 53 \<Longrightarrow>
   extractSensorData data deviceId = Some \<lparr>temperature = t div 10, humidity = min h 65\<rparr>"
  by (simp add: extractSensorData_def floor_tenth)

lemma extract_None_iff:
  "(extractSensorData data deviceId = None) =
   (raw_temperature data = None \<or> raw_humidity data = None)"
  by (simp add: extractSensorData_def split: option.splits)

lemma raw_temperature_find:
  "raw_temperature data =
     (case find is_temperature (props_of data) of None \<Rightarrow> None | Some s \<Rightarrow> prop_value s)"
  by (simp add: raw_temperature_def props_of_def split: option.splits)

lemma raw_humidity_find:
  "raw_humidity data =
     (case find is_humidity (props_of data) of None \<Rightarrow> None | Some s \<Rightarrow> prop_value s)"
  by (simp add: raw_humidity_def props_of_def split: option.splits)

lemma first_value_Some_iff:
  "((case find P ps of None \<Rightarrow> None | Some s \<Rightarrow> prop_value s) = Some v) =
   (\<exists>i<length ps. P (ps ! i) \<and> (\<forall>k<i. \<not> P (ps ! k)) \<and> prop_value (ps ! i) = Some v)"
proof -
  have "((case find P ps of None \<Rightarrow> None | Some s \<Rightarrow> prop_value s) = Some v) =
      (\<exists>s. find P ps = Some s \<and> prop_value s = Some v)"
    by (cases "find P ps") simp_all
  also have "\<dots> =
      (\<exists>i<length ps. P (ps ! i) \<and> (\<forall>k<i. \<not> P (ps ! k)) \<and> prop_value (ps ! i) = Some v)"
    unfolding find_Some_iff by blast
  finally show ?thesis .
qed

lemma first_value_None_iff:
  "((case find P ps of None \<Rightarrow> None | Some s \<Rightarrow> prop_value s) = None) =
   (\<not> (\<exists>i<length ps. P (ps ! i) \<and> (\<forall>k<i. \<not> P (ps ! k)) \<and> prop_value (ps ! i) \<noteq> None))"
proof -
  have "((case find P ps of None \<Rightarrow> None | Some s \<Rightarrow> prop_value s) = None) =
      (\<not> (\<exists>v. (case find P ps of None \<Rightarrow> None | Some s \<Rightarrow> prop_value s) = Some v))"
    by (cases "case find P ps of None \<Rightarrow> None | Some s \<Rightarrow> prop_value s") simp_all
  also have "\<dots> =
      (\<not> (\<exists>v. \<exists>i<length ps. P (ps ! i) \<and> (\<forall>k<i. \<not> P (ps ! k))
          \<and> prop_value (ps ! i) = Some v))"
    by (simp only: first_value_Some_iff)
  also have "\<dots> =
      (\<not> (\<exists>i<length ps. P (ps ! i) \<and> (\<forall>k<i. \<not> P (ps ! k)) \<and> prop_value (ps ! i) \<noteq> None))"
    by (simp only: not_None_eq) blast
  finally show ?thesis .
qed

lemma first_value_None_total:
  assumes "\<forall>s \<in> set ps. prop_value s \<noteq> None"
  shows "((case find P ps of None \<Rightarrow> None | Some s \<Rightarrow> prop_value s) = None) =
         (\<not> (\<exists>s \<in> set ps. P s))"
proof (cases "find P ps")
  case None
  then have "\<not> (\<exists>s \<in> set ps. P s)"
    by (auto simp: find_None_iff)
  with None show ?thesis
    by simp
next
  case (Some s)
  then obtain i where "i < length ps" and "P (ps ! i)" and "s = ps ! i"
    by (auto simp: find_Some_iff)
  then have "s \<in> set ps" and "P s"
    by simp_all
  with Some assms show ?thesis
    by auto
qed

lemma first_value_None_absent:
  assumes "\<not> (\<exists>s \<in> set ps. P s)"
  shows "(case find P ps of None \<Rightarrow> None | Some s \<Rightarrow> prop_value s) = None"
proof -
  have "find P ps = None"
    using assms by (auto simp: find_None_iff)
  then show ?thesis
    by simp
qed

section \<open>The paths of the two-device handler\<close>

text \<open>
  One lemma for each way through the handler: served from the cache; the token call
  rejected, refused, or granted without a result; the batch of device queries failed; the
  batch done, with a reading that is incomplete or complete.
\<close>

lemma handler_hit:
  assumes "req_method req = ''GET''" and "cache_get c (clock_now w) = Some p"
  shows "handler cr cfg w req c =
           \<lparr>sent = \<lparr>status = 200, body = Readings p\<rparr>, cache_after = c, calls = []\<rparr>"
  using assms by (simp add: handler_def)

lemma handler_miss_calls:
  assumes "req_method req = ''GET''" and "cache_get c (clock_now w) = None"
  shows "calls (handler cr cfg w req c) \<noteq> []"
  using assms
  by (simp add: handler_def Let_def
      split: fetched.splits option.splits sum.splits prod.splits)

lemma handler_token_rejected:
  assumes "req_method req = ''GET''" and "cache_get c (clock_now w) = None"
    and "tokenAnswer w (tokenRequest cr cfg (toString (clock_token w)) '''') = Rejected msg"
  shows "handler cr cfg w req c =
           \<lparr>sent = \<lparr>status = 500, body = InternalServerError (FetchError msg)\<rparr>,
            cache_after = c,
            calls = [tokenRequest cr cfg (toString (clock_token w)) '''']\<rparr>"
  using assms by (simp add: handler_def Let_def)

lemma handler_token_failed:
  assumes "req_method req = ''GET''" and "cache_get c (clock_now w) = None"
    and "tokenAnswer w (tokenRequest cr cfg (toString (clock_token w)) '''') =
           Response tokenStatus tokenData"
    and "\<not> (ok tokenStatus \<and> token_success tokenData)"
  shows "handler cr cfg w req c =
           \<lparr>sent = \<lparr>status = tokenStatus, body = TokenFailure tokenData\<rparr>,
            cache_after = c,
            calls = [tokenRequest cr cfg (toString (clock_token w)) '''']\<rparr>"
  using assms by (auto simp: handler_def Let_def)

lemma handler_token_no_result:
  assumes "req_method req = ''GET''" and "cache_get c (clock_now w) = None"
    and "tokenAnswer w (tokenRequest cr cfg (toString (clock_token w)) '''') =
           Response tokenStatus tokenData"
    and "ok tokenStatus" and "token_success tokenData"
    and "token_result tokenData = None"
  shows "handler cr cfg w req c =
           \<lparr>sent = \<lparr>status = 500, body = InternalServerError TypeError\<rparr>,
            cache_after = c,
            calls = [tokenRequest cr cfg (toString (clock_token w)) '''']\<rparr>"
  using assms by (simp add: handler_def Let_def)

lemma handler_batch_failed:
  assumes "req_method req = ''GET''" and "cache_get c (clock_now w) = None"
    and "tokenAnswer w (tokenRequest cr cfg (toString (clock_token w)) '''') =
           Response tokenStatus tokenData"
    and "ok tokenStatus" and "token_success tokenData"
    and "token_result tokenData = Some accessToken"
    and "promise_all (second_settles_first w)
           (fetchDeviceData (DEVICE_ID cfg)
              (deviceAnswer1 w (deviceRequest cr cfg accessToken (toString (clock_api w)) ''''
                 (DEVICE_ID cfg))))
           (fetchDeviceData (DEVICE_ID_2 cfg)
              (deviceAnswer2 w (deviceRequest cr cfg accessToken (toString (clock_api w)) ''''
                 (DEVICE_ID_2 cfg)))) = Inl err"
  shows "handler cr cfg w req c =
           \<lparr>sent = \<lparr>status = 500, body = InternalServerError err\<rparr>,
            cache_after = c,
            calls =
              [tokenRequest cr cfg (toString (clock_token w)) '''',
               deviceRequest cr cfg accessToken (toString (clock_api w)) '''' (DEVICE_ID cfg),
               deviceRequest cr cfg accessToken (toString (clock_api w)) '''' (DEVICE_ID_2 cfg)]\<rparr>"
  using assms by (simp add: handler_def Let_def)

lemma handler_batch_done:
  assumes "req_method req = ''GET''" and "cache_get c (clock_now w) = None"
    and "tokenAnswer w (tokenRequest cr cfg (toString (clock_token w)) '''') =
           Response tokenStatus tokenData"
    and "ok tokenStatus" and "token_success tokenData"
    and "token_result tokenData = Some accessToken"
    and "promise_all (second_settles_first w)
           (fetchDeviceData (DEVICE_ID cfg)
              (deviceAnswer1 w (deviceRequest cr cfg accessToken (toString (clock_api w)) ''''
                 (DEVICE_ID cfg))))
           (fetchDeviceData (DEVICE_ID_2 cfg)
              (deviceAnswer2 w (deviceRequest cr cfg accessToken (toString (clock_api w)) ''''
                 (DEVICE_ID_2 cfg)))) = Inr (d1, d2)"
  shows "handler cr cfg w req c =
           (case extractSensorData d1 (DEVICE_ID cfg) of
              None \<Rightarrow>
                \<lparr>sent = \<lparr>status = 404,
                         body = NotFound None (extractSensorData d2 (DEVICE_ID_2 cfg)) d1 d2\<rparr>,
                 cache_after = c,
                 calls =
                   [tokenRequest cr cfg (toString (clock_token w)) '''',
                    deviceRequest cr cfg accessToken (toString (clock_api w)) '''' (DEVICE_ID cfg),
                    deviceRequest cr cfg accessToken (toString (clock_api w)) ''''
                      (DEVICE_ID_2 cfg)]\<rparr>
            | Some s1 \<Rightarrow>
                (case extractSensorData d2 (DEVICE_ID_2 cfg) of
                   None \<Rightarrow>
                     \<lparr>sent = \<lparr>status = 404, body = NotFound (Some s1) None d1 d2\<rparr>,
                      cache_after = c,
                      calls =
                        [tokenRequest cr cfg (toString (clock_token w)) '''',
                         deviceRequest cr cfg accessToken (toString (clock_api w)) ''''
                           (DEVICE_ID cfg),
                         deviceRequest cr cfg accessToken (toString (clock_api w)) ''''
                           (DEVICE_ID_2 cfg)]\<rparr>
                 | Some s2 \<Rightarrow>
                     \<lparr>sent =
                        \<lparr>status = 200,
                         body = Readings
                           \<lparr>device = sensorData.extend s1 \<lparr>unit = ''celsius''\<rparr>,
                            wine_device = sensorData.extend s2 \<lparr>unit = ''celsius''\<rparr>\<rparr>\<rparr>,
                      cache_after =
                        \<lparr>cachedData = Some
                           \<lparr>device = sensorData.extend s1 \<lparr>unit = ''celsius''\<rparr>,
                            wine_device = sensorData.extend s2 \<lparr>unit = ''celsius''\<rparr>\<rparr>,
                         lastFetchTimestamp = clock_now w\<rparr>,
                      calls =
                        [tokenRequest cr cfg (toString (clock_token w)) '''',
                         deviceRequest cr cfg accessToken (toString (clock_api w)) ''''
                           (DEVICE_ID cfg),
                         deviceRequest cr cfg accessToken (toString (clock_api w)) ''''
                           (DEVICE_ID_2 cfg)]\<rparr>))"
  using assms by (simp add: handler_def Let_def cache_put_def split: option.splits)

lemma fetchDeviceData_Inr:
  "fetchDeviceData deviceId answer = Inr d \<Longrightarrow>
   \<exists>st. answer = Response st d \<and> ok st \<and> data_success d"
  by (cases answer) (auto simp: fetchDeviceData_def split: if_splits)

lemma promise_all_Inr:
  "promise_all b p1 p2 = Inr (d1, d2) \<Longrightarrow> p1 = Inr d1 \<and> p2 = Inr d2"
  by (cases p1; cases p2) (simp_all add: promise_all_def)

text \<open>
  Every invocation either leaves the cache as it was, having sent no request or a response
  other than a payload, or is the one complete path, which stores what it responds.
\<close>

lemma handler_outcome:
  "(cache_after (handler cr cfg w req c) = c
      \<and> (calls (handler cr cfg w req c) = []
           \<or> (\<forall>p. body (sent (handler cr cfg w req c)) \<noteq> Readings p)))
   \<or> (\<exists>tokenStatus tokenData accessToken st1 st2 d1 d2 s1 s2.
           tokenAnswer w (tokenRequest cr cfg (toString (clock_token w)) '''') =
             Response tokenStatus tokenData
           \<and> ok tokenStatus \<and> token_success tokenData
           \<and> token_result tokenData = Some accessToken
           \<and> deviceAnswer1 w
                (deviceRequest cr cfg accessToken (toString (clock_api w)) '''' (DEVICE_ID cfg)) =
               Response st1 d1
           \<and> ok st1 \<and> data_success d1
           \<and> deviceAnswer2 w
                (deviceRequest cr cfg accessToken (toString (clock_api w)) '''' (DEVICE_ID_2 cfg)) =
               Response st2 d2
           \<and> ok st2 \<and> data_success d2
           \<and> extractSensorData d1 (DEVICE_ID cfg) = Some s1
           \<and> extractSensorData d2 (DEVICE_ID_2 cfg) = Some s2
           \<and> handler cr cfg w req c =
               \<lparr>sent =
                  \<lparr>status = 200,
                   body = Readings \<lparr>device = sensorData.extend s1 \<lparr>unit = ''celsius''\<rparr>,
                                    wine_device = sensorData.extend s2 \<lparr>unit = ''celsius''\<rparr>\<rparr>\<rparr>,
                cache_after =
                  \<lparr>cachedData = Some \<lparr>device = sensorData.extend s1 \<lparr>unit = ''celsius''\<rparr>,
                                       wine_device = sensorData.extend s2 \<lparr>unit = ''celsius''\<rparr>\<rparr>,
                   lastFetchTimestamp = clock_now w\<rparr>,
                calls =
                  [tokenRequest cr cfg (toString (clock_token w)) '''',
                   deviceRequest cr cfg accessToken (toString (clock_api w)) '''' (DEVICE_ID cfg),
                   deviceRequest cr cfg accessToken (toString (clock_api w)) ''''
                     (DEVICE_ID_2 cfg)]\<rparr>)"
  (is "?same \<or> ?stored")
proof (cases "req_method req = ''GET''")
  case False
  then have ?same
    by (simp add: handler_def)
  then show ?thesis ..
next
  case get: True
  show ?thesis
  proof (cases "cache_get c (clock_now w)")
    case (Some p)
    have ?same
      by (simp add: handler_hit [OF get Some])
    then show ?thesis ..
  next
    case miss: None
    show ?thesis
    proof (cases "tokenAnswer w (tokenRequest cr cfg (toString (clock_token w)) '''')")
      case (Rejected msg)
      have ?same
        by (simp add: handler_token_rejected [OF get miss Rejected])
      then show ?thesis ..
    next
      case tok: (Response tokenStatus tokenData)
      show ?thesis
      proof (cases "ok tokenStatus \<and> token_success tokenData")
        case False
        have ?same
          by (simp add: handler_token_failed [OF get miss tok False])
        then show ?thesis ..
      next
        case True
        then have okt: "ok tokenStatus" and suc: "token_success tokenData"
          by simp_all
        show ?thesis
        proof (cases "token_result tokenData")
          case None
          have ?same
            by (simp add: handler_token_no_result [OF get miss tok okt suc None])
          then show ?thesis ..
        next
          case res: (Some accessToken)
          let ?a1 = "deviceAnswer1 w
            (deviceRequest cr cfg accessToken (toString (clock_api w)) '''' (DEVICE_ID cfg))"
          let ?a2 = "deviceAnswer2 w
            (deviceRequest cr cfg accessToken (toString (clock_api w)) '''' (DEVICE_ID_2 cfg))"
          show ?thesis
          proof (cases "promise_all (second_settles_first w)
              (fetchDeviceData (DEVICE_ID cfg) ?a1) (fetchDeviceData (DEVICE_ID_2 cfg) ?a2)")
            case (Inl err)
            have ?same
              by (simp add: handler_batch_failed [OF get miss tok okt suc res Inl])
            then show ?thesis ..
          next
            case (Inr pair)
            obtain d1 d2 where pair: "pair = (d1, d2)"
              by (cases pair)
            note both = Inr [unfolded pair]
            note h = handler_batch_done [OF get miss tok okt suc res both]
            from promise_all_Inr [OF both] obtain st1 st2 where
              a1: "?a1 = Response st1 d1" "ok st1" "data_success d1" and
              a2: "?a2 = Response st2 d2" "ok st2" "data_success d2"
              using fetchDeviceData_Inr by blast
            show ?thesis
            proof (cases "extractSensorData d1 (DEVICE_ID cfg)")
              case None
              have ?same
                by (simp add: h None)
              then show ?thesis ..
            next
              case s1: (Some s1)
              show ?thesis
              proof (cases "extractSensorData d2 (DEVICE_ID_2 cfg)")
                case None
                have ?same
                  by (simp add: h s1 None)
                then show ?thesis ..
              next
                case s2: (Some s2)
                have "handler cr cfg w req c =
                  \<lparr>sent =
                     \<lparr>status = 200,
                      body = Readings
                        \<lparr>device = sensorData.extend s1 \<lparr>unit = ''celsius''\<rparr>,
                         wine_device = sensorData.extend s2 \<lparr>unit = ''celsius''\<rparr>\<rparr>\<rparr>,
                   cache_after =
                     \<lparr>cachedData = Some
                        \<lparr>device = sensorData.extend s1 \<lparr>unit = ''celsius''\<rparr>,
                         wine_device = sensorData.extend s2 \<lparr>unit = ''celsius''\<rparr>\<rparr>,
                      lastFetchTimestamp = clock_now w\<rparr>,
                   calls =
                     [tokenRequest cr cfg (toString (clock_token w)) '''',
                      deviceRequest cr cfg accessToken (toString (clock_api w)) ''''
                        (DEVICE_ID cfg),
                      deviceRequest cr cfg accessToken (toString (clock_api w)) ''''
                        (DEVICE_ID_2 cfg)]\<rparr>"
                  by (simp add: h s1 s2)
                with tok okt suc res a1 a2 s1 s2 have ?stored
                  by blast
                then show ?thesis ..
              qed
            qed
          qed
        qed
      qed
    qed
  qed
qed

section \<open>The handlers on the sample inputs\<close>

lemma ex_raw_235_70:
  "raw_temperature ex_body_235_70 = Some 235" "raw_humidity ex_body_235_70 = Some 70"
  by (simp_all add: ex_body_235_70_def raw_temperature_def raw_humidity_def raw_properties_def
      device_body_def mkprop_def is_temperature_def is_humidity_def)

lemma ex_raw_180_40:
  "raw_temperature ex_body_180_40 = Some 180" "raw_humidity ex_body_180_40 = Some 40"
  by (simp_all add: ex_body_180_40_def raw_temperature_def raw_humidity_def raw_properties_def
      device_body_def mkprop_def is_temperature_def is_humidity_def)

lemma ex_raw_pair:
  "raw_temperature (device_body [mkprop ''temp_current'' v, mkprop ''humidity_value'' h]) = Some v"
  "raw_humidity (device_body [mkprop ''temp_current'' v, mkprop ''humidity_value'' h]) = Some h"
  by (simp_all add: raw_temperature_def raw_humidity_def raw_properties_def device_body_def
      mkprop_def is_temperature_def is_humidity_def)

lemma ex_raw_reordered:
  "raw_temperature ex_body_reordered = Some 100" "raw_humidity ex_body_reordered = Some 50"
  by (simp_all add: ex_body_reordered_def raw_temperature_def raw_humidity_def raw_properties_def
      device_body_def mkprop_def is_temperature_def is_humidity_def)

lemma ex_extract:
  "extractSensorData ex_body_235_70 d = Some \<lparr>temperature = 23, humidity = 65\<rparr>"
  "extractSensorData ex_body_180_40 d = Some \<lparr>temperature = 18, humidity = 40\<rparr>"
  by (simp_all add: extract_Some ex_raw_235_70 ex_raw_180_40)

lemma ex_success:
  "data_success ex_body_235_70" "data_success ex_body_180_40"
  by (simp_all add: ex_body_235_70_def ex_body_180_40_def device_body_def)

lemma ex_world_sel:
  "clock_now (ex_world a1 a2) = 1000"
  "clock_token (ex_world a1 a2) = 1001"
  "clock_api (ex_world a1 a2) = 1002"
  "tokenAnswer (ex_world a1 a2) r = Response 200 \<lparr>token_success = True, token_result = Some ''T1''\<rparr>"
  "deviceAnswer1 (ex_world a1 a2) r = a1"
  "deviceAnswer2 (ex_world a1 a2) r = a2"
  "second_settles_first (ex_world a1 a2) = False"
  by (simp_all add: ex_world_def)

lemma ex_props_reordered:
  "props_of ex_body_reordered =
     [mkprop ''va_temperature'' 100, mkprop ''temp_current'' 200, mkprop ''humidity_value'' 50]"
  by (simp add: ex_body_reordered_def props_of_def raw_properties_def device_body_def)

lemma ex_extract_reordered:
  "extractSensorData ex_body_reordered d = Some \<lparr>temperature = 10, humidity = 50\<rparr>"
  by (simp add: extract_Some ex_raw_reordered)

lemma ex_props_no_value:
  "props_of ex_body_no_value =
     [\<lparr>prop_code = ''temp_current'', prop_value = None\<rparr>,
      mkprop ''va_temperature'' 100, mkprop ''humidity_value'' 50]"
  by (simp add: ex_body_no_value_def props_of_def raw_properties_def device_body_def)

lemma ex_extract_no_value: "extractSensorData ex_body_no_value d = None"
  by (simp add: ex_body_no_value_def extractSensorData_def raw_temperature_def
      raw_properties_def device_body_def is_temperature_def)

lemma ex_props_no_humidity:
  "props_of ex_body_no_humidity = [mkprop ''temp_current'' 235]"
  by (simp add: ex_body_no_humidity_def props_of_def raw_properties_def device_body_def)

lemma ex_extract_beyond:
  "extractSensorData
     (device_body [mkprop ''temp_current'' 100000000000000016, mkprop ''humidity_value'' 50]) d =
   Some \<lparr>temperature = 10000000000000002, humidity = 50\<rparr>"
  using js_divide_beyond by (simp add: extractSensorData_def ex_raw_pair)

lemma ex_handler_fresh:
  "handler ex_crypto ex_config
     (ex_world (Response 200 ex_body_235_70) (Response 200 ex_body_180_40)) ex_get initial_cache =
   \<lparr>sent = \<lparr>status = 200, body = Readings ex_payload\<rparr>,
    cache_after = \<lparr>cachedData = Some ex_payload, lastFetchTimestamp = 1000\<rparr>,
    calls =
      [tokenRequest ex_crypto ex_config (toString 1001) '''',
       deviceRequest ex_crypto ex_config ''T1'' (toString 1002) '''' ''D1'',
       deviceRequest ex_crypto ex_config ''T1'' (toString 1002) '''' ''D2'']\<rparr>"
  by (simp add: handler_def Let_def ex_get_def initial_cache_def cache_get_def ex_world_sel ok_def
      fetchDeviceData_def promise_all_def ex_success ex_extract cache_put_def ex_payload_def
      ex_config_def sensorData.extend_def)

lemma ex_handler_device2_fails:
  "handler ex_crypto ex_config
     (ex_world (Response 200 ex_body_235_70) (Response 500 ex_body_180_40)) ex_get initial_cache =
   \<lparr>sent = \<lparr>status = 500, body = InternalServerError (DeviceError ''D2'' ex_body_180_40)\<rparr>,
    cache_after = initial_cache,
    calls =
      [tokenRequest ex_crypto ex_config (toString 1001) '''',
       deviceRequest ex_crypto ex_config ''T1'' (toString 1002) '''' ''D1'',
       deviceRequest ex_crypto ex_config ''T1'' (toString 1002) '''' ''D2'']\<rparr>"
  by (simp add: handler_def Let_def ex_get_def initial_cache_def cache_get_def ex_world_sel ok_def
      fetchDeviceData_def promise_all_def ex_success ex_config_def)

lemma ex_single_handler:
  "fst (single_handler ex_crypto ex_config
     (ex_world (Response 200 ex_body_235_70) (Response 200 ex_body_180_40)) ex_get) =
   \<lparr>single_status = 200,
    single_body = SReading
      \<lparr>single_deviceId = ''D1'', single_temperature = 47 / 2, single_humidity = 70,
       single_unit = ''celsius'', fullTuyaResponse = ex_body_235_70\<rparr>\<rparr>"
  by (simp add: single_handler_def Let_def ex_get_def ex_world_sel ok_def ex_success ex_raw_235_70
      ex_config_def js_divide_235)

section \<open>The signature (C1)\<close>

text \<open>
  C1. The signature that the handler computes is the specification's
  \<open>uppercase(hex(HMAC_SHA256(key = secret, message = clientId + [accessToken] + timestamp +
  nonce + method + "\n" + hex(SHA256(body)) + "\n" + "\n" + urlPath)))\<close>, with method \<open>GET\<close> and
  the empty body: without an access token for the token call, with it for the
  device-properties call; and this is the value of the \<open>sign\<close> header of either request.
\<close>

theorem signer_matches_spec:
  "tokenSign cr cfg ts nonce =
      spec_signature cr ''GET'' tokenPath '''' (TUYA_ACCESS_ID cfg) None ts nonce
        (TUYA_ACCESS_SECRET cfg)
   \<and> apiSign cr cfg tok ts nonce dev =
      spec_signature cr ''GET'' (apiPath dev) '''' (TUYA_ACCESS_ID cfg) (Some tok) ts nonce
        (TUYA_ACCESS_SECRET cfg)
   \<and> map_of (headers (tokenRequest cr cfg ts nonce)) ''sign'' =
      Some (spec_signature cr (http_method (tokenRequest cr cfg ts nonce)) tokenPath ''''
        (TUYA_ACCESS_ID cfg) None ts nonce (TUYA_ACCESS_SECRET cfg))
   \<and> map_of (headers (deviceRequest cr cfg tok ts nonce dev)) ''sign'' =
      Some (spec_signature cr (http_method (deviceRequest cr cfg tok ts nonce dev)) (apiPath dev)
        '''' (TUYA_ACCESS_ID cfg) (Some tok) ts nonce (TUYA_ACCESS_SECRET cfg))"
  by (simp add: tokenSign_def apiSign_def spec_signature_def tokenRequest_def deviceRequest_def)

section \<open>The cache check and the cache update (C2)\<close>

text \<open>
  C2. The cache check hits with payload \<open>p\<close> exactly when \<open>p\<close> is cached and
  \<open>now - lastFetchTimestamp\<close> is below five minutes; after an update at \<open>fetchedAt\<close> a check
  within five minutes yields the stored payload itself, and a check once five minutes have
  elapsed misses. The handler, on a \<open>GET\<close>, serves \<open>p\<close> from the cache without a request to
  the platform exactly when that check hits with \<open>p\<close>.
\<close>

theorem cache_get_put:
  "(cache_get c now = Some p) =
     (cachedData c = Some p \<and> now - lastFetchTimestamp c < 5 * 60 * 1000)
   \<and> (now - fetchedAt < 5 * 60 * 1000 \<longrightarrow> cache_get (cache_put c p fetchedAt) now = Some p)
   \<and> (5 * 60 * 1000 \<le> now - fetchedAt \<longrightarrow> cache_get (cache_put c p fetchedAt) now = None)
   \<and> (req_method req = ''GET'' \<longrightarrow>
        (handler cr cfg w req c =
           \<lparr>sent = \<lparr>status = 200, body = Readings p\<rparr>, cache_after = c, calls = []\<rparr>)
        = (cachedData c = Some p \<and> clock_now w - lastFetchTimestamp c < 5 * 60 * 1000))"
proof -
  have hit: "(cache_get c t = Some p) =
      (cachedData c = Some p \<and> t - lastFetchTimestamp c < 5 * 60 * 1000)" for t
    by (auto simp: cache_get_def CACHE_DURATION_def split: option.splits)
  have put: "cache_get (cache_put c p fetchedAt) now =
      (if now - fetchedAt < 5 * 60 * 1000 then Some p else None)"
    by (simp add: cache_get_def cache_put_def CACHE_DURATION_def)
  have served: "(handler cr cfg w req c =
           \<lparr>sent = \<lparr>status = 200, body = Readings p\<rparr>, cache_after = c, calls = []\<rparr>)
        = (cache_get c (clock_now w) = Some p)" if get: "req_method req = ''GET''"
  proof (cases "cache_get c (clock_now w)")
    case None
    then have "calls (handler cr cfg w req c) \<noteq> []"
      by (rule handler_miss_calls [OF get])
    with None show ?thesis
      by auto
  next
    case (Some q)
    then show ?thesis
      by (simp add: handler_hit [OF get Some])
  qed
  show ?thesis
    using hit [of now] hit [of "clock_now w"] put served by simp
qed

text \<open>
  The theorem at a cache filled at 1000 ms: a hit at 300999 ms, a miss at 301000 ms, and
  the handler serving from it when the clock reads 1000 ms.
\<close>

theorem cache_get_put_witness:
  "cache_get \<lparr>cachedData = Some ex_payload, lastFetchTimestamp = 1000\<rparr> 300999 = Some ex_payload
   \<and> cache_get (cache_put initial_cache ex_payload 1000) 300999 = Some ex_payload
   \<and> cache_get (cache_put initial_cache ex_payload 1000) 301000 = None
   \<and> req_method ex_get = ''GET''
   \<and> handler ex_crypto ex_config (ex_world (Rejected ''down'') (Rejected ''down'')) ex_get
       \<lparr>cachedData = Some ex_payload, lastFetchTimestamp = 1000\<rparr> =
      \<lparr>sent = \<lparr>status = 200, body = Readings ex_payload\<rparr>,
       cache_after = \<lparr>cachedData = Some ex_payload, lastFetchTimestamp = 1000\<rparr>,
       calls = []\<rparr>"
  using cache_get_put [of "\<lparr>cachedData = Some ex_payload, lastFetchTimestamp = 1000\<rparr>" 300999
      ex_payload 1000 ex_get ex_crypto ex_config "ex_world (Rejected ''down'') (Rejected ''down'')"]
    cache_get_put [of initial_cache 301000 ex_payload 1000 ex_get ex_crypto ex_config
      "ex_world (Rejected ''down'') (Rejected ''down'')"]
    cache_get_put [of initial_cache 300999 ex_payload 1000 ex_get ex_crypto ex_config
      "ex_world (Rejected ''down'') (Rejected ''down'')"]
  by (simp add: ex_get_def ex_world_sel)

section \<open>The temperature (C3)\<close>

text \<open>
  C3, as the code has it. For every raw temperature \<open>t\<close> of magnitude at most 2 to the
  power 53, the normalized temperature is the floor of \<open>t / 10\<close>, that is \<open>t div 10\<close>
  rounding toward minus infinity; for a non-negative \<open>t\<close> this is the division that
  truncates toward zero; and the raw values 0, 5, 9, 10, 15, -5 give 0, 0, 0, 1, 1, -1.
  (Beyond the bound the double quotient is too coarse: \<open>ex_extract_beyond\<close> has a raw
  value whose normalized temperature is not \<open>t div 10\<close>.)
\<close>

theorem temperature_is_floor_div:
  "(raw_temperature data = Some t \<and> raw_humidity data = Some h \<and> \<bar>t\<bar> \<le> 2 ^ 53 \<longrightarrow>
      map_option temperature (extractSensorData data deviceId) = Some (t div 10)
      \<and> (0 \<le> t \<longrightarrow> t div 10 = spec_truncating_div t 10))
   \<and> map (\<lambda>t. map_option temperature
          (extractSensorData
             (device_body [mkprop ''temp_current'' t, mkprop ''humidity_value'' h']) deviceId))
        [0, 5, 9, 10, 15, - 5]
      = [Some 0, Some 0, Some 0, Some 1, Some 1, Some (- 1)]"
proof -
  have trunc: "0 \<le> t \<Longrightarrow> t div 10 = spec_truncating_div t 10"
    by (cases "t = 0") (simp_all add: spec_truncating_div_def)
  have ex: "\<And>v. \<bar>v\<bar> \<le> 2 ^ 53 \<Longrightarrow> extractSensorData
             (device_body [mkprop ''temp_current'' v, mkprop ''humidity_value'' h']) deviceId
            = Some \<lparr>temperature = v div 10, humidity = min h' 65\<rparr>"
    by (rule extract_Some) (simp_all add: ex_raw_pair)
  show ?thesis
    using trunc by (simp add: extract_Some ex)
qed

text \<open>The theorem at the reading 235 tenths of a degree, 70 percent.\<close>

theorem temperature_is_floor_div_witness:
  "raw_temperature ex_body_235_70 = Some 235 \<and> raw_humidity ex_body_235_70 = Some 70
   \<and> \<bar>235 :: int\<bar> \<le> 2 ^ 53
   \<and> map_option temperature (extractSensorData ex_body_235_70 ''D1'') = Some 23
   \<and> spec_truncating_div 235 10 = 23"
proof -
  have a: "raw_temperature ex_body_235_70 = Some 235"
    by (rule ex_raw_235_70)
  have b: "raw_humidity ex_body_235_70 = Some 70"
    by (rule ex_raw_235_70)
  have c: "\<bar>235 :: int\<bar> \<le> 2 ^ 53"
    by simp
  show ?thesis
    using a b c temperature_is_floor_div [of ex_body_235_70 235 70 "''D1''"]
    by simp
qed

text \<open>
  At the raw value -5 the handler answers -1, while the division truncating toward zero
  gives 0: the temperature is not the truncated quotient.
\<close>

theorem temperature_truncation_counterexample:
  "map_option temperature
     (extractSensorData (device_body [mkprop ''temp_current'' (- 5), mkprop ''humidity_value'' 50])
        ''D1'')
     \<noteq> Some (spec_truncating_div (- 5) 10)
   \<and> map_option temperature
     (extractSensorData (device_body [mkprop ''temp_current'' (- 5), mkprop ''humidity_value'' 50])
        ''D1'') = Some (- 1)
   \<and> spec_truncating_div (- 5) 10 = 0"
proof -
  have "extractSensorData
      (device_body [mkprop ''temp_current'' (- 5), mkprop ''humidity_value'' 50]) ''D1'' =
      Some \<lparr>temperature = (- 5) div 10, humidity = min 50 65\<rparr>"
    by (rule extract_Some) (simp_all add: ex_raw_pair)
  then show ?thesis
    by (simp add: spec_truncating_div_def)
qed

section \<open>Which property is read (C4)\<close>

text \<open>
  C4, as the code has it. \<open>extractSensorData\<close> returns null exactly when, for the
  temperature or for the humidity, the property list has no property with an alias of
  that measurement, or the first such property in the order of the list carries no value.
  So it returns null whenever a measurement has no alias in the list, and on a list whose
  properties all carry a value it returns null exactly then. Otherwise it returns a
  reading, and each measurement is taken from the first property in the order of the list
  whose code is either alias of that measurement: the position in the list decides, not
  which of the two aliases it is.
\<close>

theorem extract_null_iff_and_first_match:
  "(extractSensorData data deviceId = None) =
     (\<not> (\<exists>i<length (props_of data). is_temperature (props_of data ! i)
            \<and> (\<forall>k<i. \<not> is_temperature (props_of data ! k))
            \<and> prop_value (props_of data ! i) \<noteq> None)
      \<or> \<not> (\<exists>j<length (props_of data). is_humidity (props_of data ! j)
            \<and> (\<forall>k<j. \<not> is_humidity (props_of data ! k))
            \<and> prop_value (props_of data ! j) \<noteq> None))
   \<and> (\<not> (\<exists>s \<in> set (props_of data). is_temperature s)
        \<or> \<not> (\<exists>s \<in> set (props_of data). is_humidity s) \<longrightarrow>
       extractSensorData data deviceId = None)
   \<and> ((\<forall>s \<in> set (props_of data). prop_value s \<noteq> None) \<longrightarrow>
       (extractSensorData data deviceId = None) =
         (\<not> (\<exists>s \<in> set (props_of data). is_temperature s)
          \<or> \<not> (\<exists>s \<in> set (props_of data). is_humidity s)))
   \<and> (extractSensorData data deviceId = Some r \<longrightarrow>
        (\<exists>i j vt vh. i < length (props_of data) \<and> is_temperature (props_of data ! i)
           \<and> (\<forall>k<i. \<not> is_temperature (props_of data ! k))
           \<and> prop_value (props_of data ! i) = Some vt
           \<and> temperature r = \<lfloor>js_divide (real_of_int vt) 10\<rfloor>
           \<and> j < length (props_of data) \<and> is_humidity (props_of data ! j)
           \<and> (\<forall>k<j. \<not> is_humidity (props_of data ! k))
           \<and> prop_value (props_of data ! j) = Some vh
           \<and> humidity r = min vh 65))"
  (is "?null \<and> ?absent \<and> ?total \<and> ?first")
proof -
  have null: ?null
    by (simp only: extract_None_iff raw_temperature_find raw_humidity_find first_value_None_iff)
  have absent: ?absent
  proof
    assume "\<not> (\<exists>s \<in> set (props_of data). is_temperature s)
        \<or> \<not> (\<exists>s \<in> set (props_of data). is_humidity s)"
    then show "extractSensorData data deviceId = None"
    proof
      assume a: "\<not> (\<exists>s \<in> set (props_of data). is_temperature s)"
      have "raw_temperature data = None"
        unfolding raw_temperature_find using a by (rule first_value_None_absent)
      then show ?thesis
        by (simp add: extract_None_iff)
    next
      assume a: "\<not> (\<exists>s \<in> set (props_of data). is_humidity s)"
      have "raw_humidity data = None"
        unfolding raw_humidity_find using a by (rule first_value_None_absent)
      then show ?thesis
        by (simp add: extract_None_iff)
    qed
  qed
  have total: ?total
    by (simp add: extract_None_iff raw_temperature_find raw_humidity_find
        first_value_None_total)
  have first: ?first
  proof
    assume r: "extractSensorData data deviceId = Some r"
    then obtain vt vh where t: "raw_temperature data = Some vt"
      and h: "raw_humidity data = Some vh"
      and rr: "r = \<lparr>temperature = \<lfloor>js_divide (real_of_int vt) 10\<rfloor>, humidity = min vh 65\<rparr>"
      by (auto simp: extractSensorData_def split: option.splits)
    from t obtain i where i: "i < length (props_of data)" "is_temperature (props_of data ! i)"
      "\<forall>k<i. \<not> is_temperature (props_of data ! k)" "prop_value (props_of data ! i) = Some vt"
      unfolding raw_temperature_find first_value_Some_iff by blast
    from h obtain j where j: "j < length (props_of data)" "is_humidity (props_of data ! j)"
      "\<forall>k<j. \<not> is_humidity (props_of data ! k)" "prop_value (props_of data ! j) = Some vh"
      unfolding raw_humidity_find first_value_Some_iff by blast
    have "temperature r = \<lfloor>js_divide (real_of_int vt) 10\<rfloor>" "humidity r = min vh 65"
      by (simp_all add: rr)
    with i j show "\<exists>i j vt vh. i < length (props_of data) \<and> is_temperature (props_of data ! i)
           \<and> (\<forall>k<i. \<not> is_temperature (props_of data ! k))
           \<and> prop_value (props_of data ! i) = Some vt
           \<and> temperature r = \<lfloor>js_divide (real_of_int vt) 10\<rfloor>
           \<and> j < length (props_of data) \<and> is_humidity (props_of data ! j)
           \<and> (\<forall>k<j. \<not> is_humidity (props_of data ! k))
           \<and> prop_value (props_of data ! j) = Some vh
           \<and> humidity r = min vh 65"
      by blast
  qed
  show ?thesis
    using null absent total first by blast
qed

text \<open>
  The theorem at a list that carries \<open>va_temperature\<close> (100) before \<open>temp_current\<close> (200), where
  the reading is made from position 0, and at a list without a humidity property.
\<close>

theorem extract_null_iff_and_first_match_witness:
  "extractSensorData ex_body_reordered ''D1'' = Some \<lparr>temperature = 10, humidity = 50\<rparr>
   \<and> list_all (\<lambda>s. prop_value s \<noteq> None) (props_of ex_body_reordered)
   \<and> (\<exists>i j vt vh. i < length (props_of ex_body_reordered)
         \<and> is_temperature (props_of ex_body_reordered ! i)
         \<and> (\<forall>k<i. \<not> is_temperature (props_of ex_body_reordered ! k))
         \<and> prop_value (props_of ex_body_reordered ! i) = Some vt
         \<and> temperature \<lparr>temperature = 10, humidity = 50\<rparr> = \<lfloor>js_divide (real_of_int vt) 10\<rfloor>
         \<and> j < length (props_of ex_body_reordered)
         \<and> is_humidity (props_of ex_body_reordered ! j)
         \<and> (\<forall>k<j. \<not> is_humidity (props_of ex_body_reordered ! k))
         \<and> prop_value (props_of ex_body_reordered ! j) = Some vh
         \<and> humidity \<lparr>temperature = 10, humidity = 50\<rparr> = min vh 65)
   \<and> \<not> (\<exists>s \<in> set (props_of ex_body_no_humidity). is_humidity s)
   \<and> extractSensorData ex_body_no_humidity ''D1'' = None"
proof -
  note th1 = extract_null_iff_and_first_match
    [of ex_body_reordered "''D1''" "\<lparr>temperature = 10, humidity = 50\<rparr>"]
  note th2 = extract_null_iff_and_first_match
    [of ex_body_no_humidity "''D1''" "\<lparr>temperature = 10, humidity = 50\<rparr>"]
  have e: "extractSensorData ex_body_reordered ''D1'' = Some \<lparr>temperature = 10, humidity = 50\<rparr>"
    by (rule ex_extract_reordered)
  have v: "list_all (\<lambda>s. prop_value s \<noteq> None) (props_of ex_body_reordered)"
    by (simp add: ex_props_reordered mkprop_def)
  have n: "\<not> (\<exists>s \<in> set (props_of ex_body_no_humidity). is_humidity s)"
    by (simp add: ex_props_no_humidity mkprop_def is_humidity_def)
  from th1 e have first: "\<exists>i j vt vh. i < length (props_of ex_body_reordered)
         \<and> is_temperature (props_of ex_body_reordered ! i)
         \<and> (\<forall>k<i. \<not> is_temperature (props_of ex_body_reordered ! k))
         \<and> prop_value (props_of ex_body_reordered ! i) = Some vt
         \<and> temperature \<lparr>temperature = 10, humidity = 50\<rparr> = \<lfloor>js_divide (real_of_int vt) 10\<rfloor>
         \<and> j < length (props_of ex_body_reordered)
         \<and> is_humidity (props_of ex_body_reordered ! j)
         \<and> (\<forall>k<j. \<not> is_humidity (props_of ex_body_reordered ! k))
         \<and> prop_value (props_of ex_body_reordered ! j) = Some vh
         \<and> humidity \<lparr>temperature = 10, humidity = 50\<rparr> = min vh 65"
    by blast
  from th2 n have none: "extractSensorData ex_body_no_humidity ''D1'' = None"
    by blast
  show ?thesis
    using e v first n none by blast
qed

text \<open>
  On the first list the handler reads \<open>va_temperature\<close> and answers 10 degrees; an
  extraction that prefers \<open>temp_current\<close> answers 20. On a list whose first temperature
  property has no value the handler returns null, although an alias of each measurement is
  present.
\<close>

theorem extract_priority_counterexample:
  "extractSensorData ex_body_reordered ''D1'' \<noteq> spec_extract (props_of ex_body_reordered)
   \<and> extractSensorData ex_body_reordered ''D1'' = Some \<lparr>temperature = 10, humidity = 50\<rparr>
   \<and> spec_extract (props_of ex_body_reordered) = Some \<lparr>temperature = 20, humidity = 50\<rparr>
   \<and> is_temperature (props_of ex_body_no_value ! 0)
   \<and> is_temperature (props_of ex_body_no_value ! 1)
   \<and> is_humidity (props_of ex_body_no_value ! 2)
   \<and> extractSensorData ex_body_no_value ''D1'' = None"
proof -
  have "\<lfloor>js_divide (real_of_int 200) 10\<rfloor> = 200 div 10"
    by (rule floor_tenth) simp
  then have f: "\<lfloor>js_divide 200 10\<rfloor> = 20"
    by simp
  have s: "spec_extract (props_of ex_body_reordered) = Some \<lparr>temperature = 20, humidity = 50\<rparr>"
    by (simp add: ex_props_reordered spec_extract_def spec_lookup_def mkprop_def f)
  have a: "is_temperature (props_of ex_body_no_value ! 0)"
    "is_temperature (props_of ex_body_no_value ! 1)"
    "is_humidity (props_of ex_body_no_value ! 2)"
    by (simp_all add: ex_props_no_value mkprop_def is_temperature_def is_humidity_def)
  show ?thesis
    using s a by (simp add: ex_extract_reordered ex_extract_no_value)
qed

section \<open>The humidity (C5)\<close>

text \<open>
  C5. For every raw humidity \<open>h\<close> the normalized humidity is \<open>min h 65\<close>; it equals \<open>h\<close>
  whenever \<open>h\<close> is at most 65, and no reading that is extracted has a humidity above 65.
\<close>

theorem humidity_is_capped:
  "(raw_temperature data = Some t \<and> raw_humidity data = Some h \<longrightarrow>
      map_option humidity (extractSensorData data deviceId) = Some (min h 65)
      \<and> (h \<le> 65 \<longrightarrow> map_option humidity (extractSensorData data deviceId) = Some h))
   \<and> (extractSensorData data deviceId = Some r \<longrightarrow> humidity r \<le> 65)"
  by (auto simp: extractSensorData_def split: option.splits)

text \<open>The theorem at the readings 70 percent (capped) and 40 percent (unchanged).\<close>

theorem humidity_is_capped_witness:
  "raw_temperature ex_body_235_70 = Some 235 \<and> raw_humidity ex_body_235_70 = Some 70
   \<and> map_option humidity (extractSensorData ex_body_235_70 ''D1'') = Some 65
   \<and> raw_temperature ex_body_180_40 = Some 180 \<and> raw_humidity ex_body_180_40 = Some 40
   \<and> (40::int) \<le> 65
   \<and> map_option humidity (extractSensorData ex_body_180_40 ''D2'') = Some 40
   \<and> extractSensorData ex_body_235_70 ''D1'' = Some \<lparr>temperature = 23, humidity = 65\<rparr>
   \<and> humidity \<lparr>temperature = 23, humidity = 65\<rparr> \<le> 65"
proof -
  have a: "raw_temperature ex_body_235_70 = Some 235" "raw_humidity ex_body_235_70 = Some 70"
    by (simp_all add: ex_body_235_70_def raw_temperature_def raw_humidity_def raw_properties_def
        device_body_def mkprop_def is_temperature_def is_humidity_def)
  have b: "raw_temperature ex_body_180_40 = Some 180" "raw_humidity ex_body_180_40 = Some 40"
    by (simp_all add: ex_body_180_40_def raw_temperature_def raw_humidity_def raw_properties_def
        device_body_def mkprop_def is_temperature_def is_humidity_def)
  have c: "extractSensorData ex_body_235_70 ''D1'' = Some \<lparr>temperature = 23, humidity = 65\<rparr>"
    using a by (simp add: extract_Some)
  show ?thesis
    using a b c
      humidity_is_capped [of ex_body_235_70 235 70 "''D1''" "\<lparr>temperature = 23, humidity = 65\<rparr>"]
      humidity_is_capped [of ex_body_180_40 180 40 "''D2''" "\<lparr>temperature = 18, humidity = 40\<rparr>"]
    by simp
qed

section \<open>When the cache is written (C6)\<close>

text \<open>
  C6. An invocation whose response is not a payload leaves \<open>cachedData\<close> and
  \<open>lastFetchTimestamp\<close> as they were. If an invocation changes the cache, then the token call
  succeeded with a token, both device queries succeeded, both extractions returned a
  reading, and what is stored is the payload made of the two readings, which is also what
  is sent with status 200. So no failure of the token call or of a device query and no null
  extraction writes the cache.
\<close>

theorem cache_written_only_with_full_payload:
  "((\<forall>p. body (sent (handler cr cfg w req c)) \<noteq> Readings p) \<longrightarrow>
      cache_after (handler cr cfg w req c) = c)
   \<and> (cache_after (handler cr cfg w req c) \<noteq> c \<longrightarrow>
        (\<exists>tokenStatus tokenData accessToken st1 st2 d1 d2 s1 s2.
           tokenAnswer w (tokenRequest cr cfg (toString (clock_token w)) '''') =
             Response tokenStatus tokenData
           \<and> ok tokenStatus \<and> token_success tokenData
           \<and> token_result tokenData = Some accessToken
           \<and> deviceAnswer1 w
                (deviceRequest cr cfg accessToken (toString (clock_api w)) '''' (DEVICE_ID cfg)) =
               Response st1 d1
           \<and> ok st1 \<and> data_success d1
           \<and> deviceAnswer2 w
                (deviceRequest cr cfg accessToken (toString (clock_api w)) '''' (DEVICE_ID_2 cfg)) =
               Response st2 d2
           \<and> ok st2 \<and> data_success d2
           \<and> extractSensorData d1 (DEVICE_ID cfg) = Some s1
           \<and> extractSensorData d2 (DEVICE_ID_2 cfg) = Some s2
           \<and> cachedData (cache_after (handler cr cfg w req c)) =
               Some \<lparr>device = sensorData.extend s1 \<lparr>unit = ''celsius''\<rparr>,
                     wine_device = sensorData.extend s2 \<lparr>unit = ''celsius''\<rparr>\<rparr>
           \<and> sent (handler cr cfg w req c) =
               \<lparr>status = 200,
                body = Readings \<lparr>device = sensorData.extend s1 \<lparr>unit = ''celsius''\<rparr>,
                                 wine_device = sensorData.extend s2 \<lparr>unit = ''celsius''\<rparr>\<rparr>\<rparr>))"
  (is "?errors \<and> (?changed \<longrightarrow> ?full)")
proof -
  from handler_outcome [of cr cfg w req c] show ?thesis
  proof (elim disjE)
    assume "cache_after (handler cr cfg w req c) = c
      \<and> (calls (handler cr cfg w req c) = []
           \<or> (\<forall>p. body (sent (handler cr cfg w req c)) \<noteq> Readings p))"
    then show ?thesis
      by simp
  next
    assume "\<exists>tokenStatus tokenData accessToken st1 st2 d1 d2 s1 s2.
           tokenAnswer w (tokenRequest cr cfg (toString (clock_token w)) '''') =
             Response tokenStatus tokenData
           \<and> ok tokenStatus \<and> token_success tokenData
           \<and> token_result tokenData = Some accessToken
           \<and> deviceAnswer1 w
                (deviceRequest cr cfg accessToken (toString (clock_api w)) '''' (DEVICE_ID cfg)) =
               Response st1 d1
           \<and> ok st1 \<and> data_success d1
           \<and> deviceAnswer2 w
                (deviceRequest cr cfg accessToken (toString (clock_api w)) '''' (DEVICE_ID_2 cfg)) =
               Response st2 d2
           \<and> ok st2 \<and> data_success d2
           \<and> extractSensorData d1 (DEVICE_ID cfg) = Some s1
           \<and> extractSensorData d2 (DEVICE_ID_2 cfg) = Some s2
           \<and> handler cr cfg w req c =
               \<lparr>sent =
                  \<lparr>status = 200,
                   body = Readings \<lparr>device = sensorData.extend s1 \<lparr>unit = ''celsius''\<rparr>,
                                    wine_device = sensorData.extend s2 \<lparr>unit = ''celsius''\<rparr>\<rparr>\<rparr>,
                cache_after =
                  \<lparr>cachedData = Some \<lparr>device = sensorData.extend s1 \<lparr>unit = ''celsius''\<rparr>,
                                       wine_device = sensorData.extend s2 \<lparr>unit = ''celsius''\<rparr>\<rparr>,
                   lastFetchTimestamp = clock_now w\<rparr>,
                calls =
                  [tokenRequest cr cfg (toString (clock_token w)) '''',
                   deviceRequest cr cfg accessToken (toString (clock_api w)) '''' (DEVICE_ID cfg),
                   deviceRequest cr cfg accessToken (toString (clock_api w)) ''''
                     (DEVICE_ID_2 cfg)]\<rparr>"
    then obtain tokenStatus tokenData accessToken st1 st2 d1 d2 s1 s2 where
      facts: "tokenAnswer w (tokenRequest cr cfg (toString (clock_token w)) '''') =
             Response tokenStatus tokenData"
        "ok tokenStatus" "token_success tokenData" "token_result tokenData = Some accessToken"
        "deviceAnswer1 w
                (deviceRequest cr cfg accessToken (toString (clock_api w)) '''' (DEVICE_ID cfg)) =
               Response st1 d1"
        "ok st1" "data_success d1"
        "deviceAnswer2 w
                (deviceRequest cr cfg accessToken (toString (clock_api w)) '''' (DEVICE_ID_2 cfg)) =
               Response st2 d2"
        "ok st2" "data_success d2"
        "extractSensorData d1 (DEVICE_ID cfg) = Some s1"
        "extractSensorData d2 (DEVICE_ID_2 cfg) = Some s2"
      and h: "handler cr cfg w req c =
               \<lparr>sent =
                  \<lparr>status = 200,
                   body = Readings \<lparr>device = sensorData.extend s1 \<lparr>unit = ''celsius''\<rparr>,
                                    wine_device = sensorData.extend s2 \<lparr>unit = ''celsius''\<rparr>\<rparr>\<rparr>,
                cache_after =
                  \<lparr>cachedData = Some \<lparr>device = sensorData.extend s1 \<lparr>unit = ''celsius''\<rparr>,
                                       wine_device = sensorData.extend s2 \<lparr>unit = ''celsius''\<rparr>\<rparr>,
                   lastFetchTimestamp = clock_now w\<rparr>,
                calls =
                  [tokenRequest cr cfg (toString (clock_token w)) '''',
                   deviceRequest cr cfg accessToken (toString (clock_api w)) '''' (DEVICE_ID cfg),
                   deviceRequest cr cfg accessToken (toString (clock_api w)) ''''
                     (DEVICE_ID_2 cfg)]\<rparr>"
      by blast
    have e: ?errors
      by (simp add: h)
    have c1: "cachedData (cache_after (handler cr cfg w req c)) =
               Some \<lparr>device = sensorData.extend s1 \<lparr>unit = ''celsius''\<rparr>,
                     wine_device = sensorData.extend s2 \<lparr>unit = ''celsius''\<rparr>\<rparr>"
      by (simp add: h)
    have c2: "sent (handler cr cfg w req c) =
               \<lparr>status = 200,
                body = Readings \<lparr>device = sensorData.extend s1 \<lparr>unit = ''celsius''\<rparr>,
                                 wine_device = sensorData.extend s2 \<lparr>unit = ''celsius''\<rparr>\<rparr>\<rparr>"
      by (simp add: h)
    have ?full
      using facts c1 c2 by blast
    with e show ?thesis
      by blast
  qed
qed

text \<open>
  The theorem on the empty cache: with two good device answers the payload is stored; with
  the second device answering status 500 the cache stays empty.
\<close>

theorem cache_written_only_with_full_payload_witness:
  "cache_after (handler ex_crypto ex_config
      (ex_world (Response 200 ex_body_235_70) (Response 200 ex_body_180_40)) ex_get initial_cache)
     \<noteq> initial_cache
   \<and> cachedData (cache_after (handler ex_crypto ex_config
      (ex_world (Response 200 ex_body_235_70) (Response 200 ex_body_180_40)) ex_get initial_cache))
     = Some ex_payload
   \<and> sent (handler ex_crypto ex_config
      (ex_world (Response 200 ex_body_235_70) (Response 200 ex_body_180_40)) ex_get initial_cache)
     = \<lparr>status = 200, body = Readings ex_payload\<rparr>
   \<and> body (sent (handler ex_crypto ex_config
      (ex_world (Response 200 ex_body_235_70) (Response 500 ex_body_180_40)) ex_get initial_cache))
     = InternalServerError (DeviceError ''D2'' ex_body_180_40)
   \<and> cache_after (handler ex_crypto ex_config
      (ex_world (Response 200 ex_body_235_70) (Response 500 ex_body_180_40)) ex_get initial_cache)
     = initial_cache"
proof -
  have ne: "\<lparr>cachedData = Some ex_payload, lastFetchTimestamp = 1000\<rparr> \<noteq> initial_cache"
    by (simp add: initial_cache_def)
  show ?thesis
    using cache_written_only_with_full_payload [of ex_crypto ex_config
        "ex_world (Response 200 ex_body_235_70) (Response 200 ex_body_180_40)" ex_get
        initial_cache]
      cache_written_only_with_full_payload [of ex_crypto ex_config
        "ex_world (Response 200 ex_body_235_70) (Response 500 ex_body_180_40)" ex_get
        initial_cache]
    by (simp add: ex_handler_fresh ex_handler_device2_fails ne)
qed

section \<open>A failed device query (C7)\<close>

text \<open>
  C7. On a cache miss with a token granted, both device requests are sent, whatever the
  answer to the other is; and if either query fails (a rejected promise, a status outside
  200 to 299, or a false \<open>success\<close> flag) the response is the error response with status
  500, it carries no reading, and the cache is unchanged.
\<close>

theorem failed_device_query_fails_batch:
  assumes "req_method req = ''GET''"
    and "cache_get c (clock_now w) = None"
    and "tokenAnswer w (tokenRequest cr cfg (toString (clock_token w)) '''') =
           Response tokenStatus tokenData"
    and "ok tokenStatus" and "token_success tokenData"
    and "token_result tokenData = Some accessToken"
    and "device_query_failed
           (deviceAnswer1 w
              (deviceRequest cr cfg accessToken (toString (clock_api w)) '''' (DEVICE_ID cfg)))
         \<or> device_query_failed
           (deviceAnswer2 w
              (deviceRequest cr cfg accessToken (toString (clock_api w)) '''' (DEVICE_ID_2 cfg)))"
  shows "status (sent (handler cr cfg w req c)) = 500
         \<and> (\<exists>err. body (sent (handler cr cfg w req c)) = InternalServerError err)
         \<and> multi_reading_of (handler cr cfg w req c) = None
         \<and> cache_after (handler cr cfg w req c) = c
         \<and> calls (handler cr cfg w req c) =
             [tokenRequest cr cfg (toString (clock_token w)) '''',
              deviceRequest cr cfg accessToken (toString (clock_api w)) '''' (DEVICE_ID cfg),
              deviceRequest cr cfg accessToken (toString (clock_api w)) '''' (DEVICE_ID_2 cfg)]"
proof -
  let ?a1 = "deviceAnswer1 w
              (deviceRequest cr cfg accessToken (toString (clock_api w)) '''' (DEVICE_ID cfg))"
  let ?a2 = "deviceAnswer2 w
              (deviceRequest cr cfg accessToken (toString (clock_api w)) '''' (DEVICE_ID_2 cfg))"
  have failed: "device_query_failed a \<Longrightarrow> \<exists>e. fetchDeviceData d a = Inl e" for a d
    by (cases a) (auto simp: device_query_failed_def fetchDeviceData_def split: if_splits)
  from assms(7) obtain err where
    "promise_all (second_settles_first w) (fetchDeviceData (DEVICE_ID cfg) ?a1)
       (fetchDeviceData (DEVICE_ID_2 cfg) ?a2) = Inl err"
  proof
    assume "device_query_failed ?a1"
    then obtain e where "fetchDeviceData (DEVICE_ID cfg) ?a1 = Inl e"
      using failed by blast
    then show ?thesis
      using that by (cases "fetchDeviceData (DEVICE_ID_2 cfg) ?a2") (simp_all add: promise_all_def)
  next
    assume "device_query_failed ?a2"
    then obtain e where "fetchDeviceData (DEVICE_ID_2 cfg) ?a2 = Inl e"
      using failed by blast
    then show ?thesis
      using that by (cases "fetchDeviceData (DEVICE_ID cfg) ?a1") (simp_all add: promise_all_def)
  qed
  with assms(1-6) show ?thesis
    by (simp add: handler_def Let_def multi_reading_of_def)
qed

text \<open>The theorem with the first device answering well and the second with status 500.\<close>

theorem failed_device_query_fails_batch_witness:
  "req_method ex_get = ''GET''
   \<and> cache_get initial_cache
       (clock_now (ex_world (Response 200 ex_body_235_70) (Response 500 ex_body_180_40))) = None
   \<and> device_query_failed (Response 500 ex_body_180_40)
   \<and> sent (handler ex_crypto ex_config
        (ex_world (Response 200 ex_body_235_70) (Response 500 ex_body_180_40)) ex_get
        initial_cache) =
      \<lparr>status = 500, body = InternalServerError (DeviceError ''D2'' ex_body_180_40)\<rparr>
   \<and> cache_after (handler ex_crypto ex_config
        (ex_world (Response 200 ex_body_235_70) (Response 500 ex_body_180_40)) ex_get
        initial_cache) = initial_cache"
proof -
  let ?w = "ex_world (Response 200 ex_body_235_70) (Response 500 ex_body_180_40)"
  have h1: "req_method ex_get = ''GET''"
    by (simp add: ex_get_def)
  have h2: "cache_get initial_cache (clock_now ?w) = None"
    by (simp add: cache_get_def initial_cache_def)
  have h3: "tokenAnswer ?w (tokenRequest ex_crypto ex_config (toString (clock_token ?w)) '''') =
      Response 200 \<lparr>token_success = True, token_result = Some ''T1''\<rparr>"
    by (simp add: ex_world_sel)
  have h4: "ok 200" "token_success \<lparr>token_success = True, token_result = Some ''T1''\<rparr>"
    "token_result \<lparr>token_success = True, token_result = Some ''T1''\<rparr> = Some ''T1''"
    by (simp_all add: ok_def)
  have h5: "device_query_failed (Response 500 ex_body_180_40)"
    by (simp add: device_query_failed_def ok_def)
  then have h6: "device_query_failed
           (deviceAnswer1 ?w
              (deviceRequest ex_crypto ex_config ''T1'' (toString (clock_api ?w)) ''''
                 (DEVICE_ID ex_config)))
         \<or> device_query_failed
           (deviceAnswer2 ?w
              (deviceRequest ex_crypto ex_config ''T1'' (toString (clock_api ?w)) ''''
                 (DEVICE_ID_2 ex_config)))"
    by (simp add: ex_world_sel)
  note th = failed_device_query_fails_batch [OF h1 h2 h3 h4 h6]
  show ?thesis
    using th h1 h2 h5 by (simp add: ex_handler_device2_fails)
qed

section \<open>A cache hit (C8)\<close>

text \<open>
  C8. On a \<open>GET\<close> with a payload cached less than five minutes before the clock reading
  taken at the start, the handler responds 200 with the cached payload, sends no request
  to the platform, and leaves the cache as it was.
\<close>

theorem cache_hit_short_circuits:
  assumes "req_method req = ''GET''"
    and "cachedData c = Some p"
    and "clock_now w - lastFetchTimestamp c < 5 * 60 * 1000"
  shows "handler cr cfg w req c =
           \<lparr>sent = \<lparr>status = 200, body = Readings p\<rparr>, cache_after = c, calls = []\<rparr>"
  using assms by (simp add: handler_def cache_get_def CACHE_DURATION_def)

text \<open>
  The theorem with a payload cached at 900 ms and the clock at 1000 ms, on a platform whose
  device queries would be rejected.
\<close>

theorem cache_hit_short_circuits_witness:
  "req_method ex_get = ''GET''
   \<and> cachedData \<lparr>cachedData = Some ex_payload, lastFetchTimestamp = 900\<rparr> = Some ex_payload
   \<and> clock_now (ex_world (Rejected ''down'') (Rejected ''down''))
       - lastFetchTimestamp \<lparr>cachedData = Some ex_payload, lastFetchTimestamp = 900\<rparr>
       < 5 * 60 * 1000
   \<and> handler ex_crypto ex_config (ex_world (Rejected ''down'') (Rejected ''down'')) ex_get
       \<lparr>cachedData = Some ex_payload, lastFetchTimestamp = 900\<rparr> =
      \<lparr>sent = \<lparr>status = 200, body = Readings ex_payload\<rparr>,
       cache_after = \<lparr>cachedData = Some ex_payload, lastFetchTimestamp = 900\<rparr>,
       calls = []\<rparr>"
proof -
  let ?c = "\<lparr>cachedData = Some ex_payload, lastFetchTimestamp = 900\<rparr>"
  let ?w = "ex_world (Rejected ''down'') (Rejected ''down'')"
  have h1: "req_method ex_get = ''GET''"
    by (simp add: ex_get_def)
  have h2: "cachedData ?c = Some ex_payload"
    by simp
  have h3: "clock_now ?w - lastFetchTimestamp ?c < 5 * 60 * 1000"
    by (simp add: ex_world_sel)
  show ?thesis
    using h1 h2 h3 cache_hit_short_circuits [OF h1 h2 h3, of ex_crypto ex_config]
    by simp
qed

section \<open>The two handlers compared (C9)\<close>

text \<open>
  C9, as the code has it. From the same successful answer for the first device, with raw
  temperature \<open>t\<close> of magnitude at most 2 to the power 53 and raw humidity \<open>h\<close>, the
  single-device handler responds with the double quotient \<open>t / 10\<close>, not rounded to an
  integer (it is within 1/16 of the exact quotient, and is the exact quotient when \<open>t\<close> is a
  multiple of 10), and with \<open>h\<close> itself; the two-device handler responds with the floor of
  \<open>t / 10\<close> and with \<open>min h 65\<close>. The two readings are equal exactly when \<open>t\<close> is a multiple
  of 10 and \<open>h\<close> is at most 65.
\<close>

theorem single_and_multi_readings:
  assumes "req_method req = ''GET''"
    and "cache_get c (clock_now w) = None"
    and "tokenAnswer w (tokenRequest cr cfg (toString (clock_token w)) '''') =
           Response tokenStatus tokenData"
    and "ok tokenStatus" and "token_success tokenData"
    and "token_result tokenData = Some accessToken"
    and "deviceAnswer1 w
           (deviceRequest cr cfg accessToken (toString (clock_api w)) '''' (DEVICE_ID cfg)) =
         Response st1 d1"
    and "ok st1" and "data_success d1"
    and "raw_temperature d1 = Some t" and "raw_humidity d1 = Some h"
    and "deviceAnswer2 w
           (deviceRequest cr cfg accessToken (toString (clock_api w)) '''' (DEVICE_ID_2 cfg)) =
         Response st2 d2"
    and "ok st2" and "data_success d2"
    and "extractSensorData d2 (DEVICE_ID_2 cfg) = Some s2"
    and "\<bar>t\<bar> \<le> 2 ^ 53"
  shows "single_reading_of (single_handler cr cfg w req) = Some (js_divide (real_of_int t) 10, h)
         \<and> \<bar>js_divide (real_of_int t) 10 - real_of_int t / 10\<bar> \<le> 1 / 16
         \<and> (t mod 10 = 0 \<longrightarrow> js_divide (real_of_int t) 10 = real_of_int t / 10)
         \<and> multi_reading_of (handler cr cfg w req c) = Some (real_of_int (t div 10), min h 65)
         \<and> ((single_reading_of (single_handler cr cfg w req) =
               multi_reading_of (handler cr cfg w req c))
             = (t mod 10 = 0 \<and> h \<le> 65))"
proof -
  have s: "single_reading_of (single_handler cr cfg w req) = Some (js_divide (real_of_int t) 10, h)"
    using assms(1,3-11)
    by (simp add: single_handler_def Let_def single_reading_of_def)
  have err: "\<bar>js_divide (real_of_int t) 10 - real_of_int t / 10\<bar> \<le> 1 / 16"
    unfolding js_divide_def using tenth_small(1) [OF assms(16)] by (rule to_double_error)
  have exact: "js_divide (real_of_int t) 10 = real_of_int t / 10" if "t mod 10 = 0"
    using js_divide_tenth_exact [OF assms(16) that] that by (simp add: tenth_decompose)
  have e1: "extractSensorData d1 (DEVICE_ID cfg) =
      Some \<lparr>temperature = t div 10, humidity = min h 65\<rparr>"
    using assms(10,11,16) by (rule extract_Some)
  have m: "multi_reading_of (handler cr cfg w req c) = Some (real_of_int (t div 10), min h 65)"
    using assms(1-9,12-15) e1
    by (simp add: handler_def Let_def multi_reading_of_def fetchDeviceData_def promise_all_def
        sensorData.extend_def)
  have "((js_divide (real_of_int t) 10, h) = (real_of_int (t div 10), min h 65))
          = (t mod 10 = 0 \<and> h \<le> 65)"
    using js_divide_tenth_eq [OF assms(16)] by auto
  with s m err exact show ?thesis
    by simp
qed

text \<open>The theorem at the reading 235 tenths of a degree, 70 percent.\<close>

theorem single_and_multi_readings_witness:
  "req_method ex_get = ''GET''
   \<and> cache_get initial_cache
       (clock_now (ex_world (Response 200 ex_body_235_70) (Response 200 ex_body_180_40))) = None
   \<and> raw_temperature ex_body_235_70 = Some 235 \<and> raw_humidity ex_body_235_70 = Some 70
   \<and> \<bar>235 :: int\<bar> \<le> 2 ^ 53
   \<and> single_reading_of (single_handler ex_crypto ex_config
        (ex_world (Response 200 ex_body_235_70) (Response 200 ex_body_180_40)) ex_get)
      = Some (47 / 2, 70)
   \<and> multi_reading_of (handler ex_crypto ex_config
        (ex_world (Response 200 ex_body_235_70) (Response 200 ex_body_180_40)) ex_get
        initial_cache)
      = Some (23, 65)"
proof -
  let ?w = "ex_world (Response 200 ex_body_235_70) (Response 200 ex_body_180_40)"
  have h1: "req_method ex_get = ''GET''"
    by (simp add: ex_get_def)
  have h2: "cache_get initial_cache (clock_now ?w) = None"
    by (simp add: cache_get_def initial_cache_def)
  have h3: "tokenAnswer ?w (tokenRequest ex_crypto ex_config (toString (clock_token ?w)) '''') =
      Response 200 \<lparr>token_success = True, token_result = Some ''T1''\<rparr>"
    by (simp add: ex_world_sel)
  have h4: "ok 200" "token_success \<lparr>token_success = True, token_result = Some ''T1''\<rparr>"
    "token_result \<lparr>token_success = True, token_result = Some ''T1''\<rparr> = Some ''T1''"
    by (simp_all add: ok_def)
  have h5: "deviceAnswer1 ?w
           (deviceRequest ex_crypto ex_config ''T1'' (toString (clock_api ?w)) ''''
              (DEVICE_ID ex_config)) = Response 200 ex_body_235_70"
    by (simp add: ex_world_sel)
  have h6: "deviceAnswer2 ?w
           (deviceRequest ex_crypto ex_config ''T1'' (toString (clock_api ?w)) ''''
              (DEVICE_ID_2 ex_config)) = Response 200 ex_body_180_40"
    by (simp add: ex_world_sel)
  have h7: "\<bar>235 :: int\<bar> \<le> 2 ^ 53"
    by simp
  note th = single_and_multi_readings [OF h1 h2 h3 h4 h5 h4(1) ex_success(1) ex_raw_235_70 h6
      h4(1) ex_success(2) ex_extract(2) h7]
  show ?thesis
    using th h1 h2 h7 ex_raw_235_70 by (simp add: js_divide_235)
qed

text \<open>
  At that reading the single-device handler responds 23.5 degrees and 70 percent, the
  two-device handler 23 degrees and 65 percent.
\<close>

theorem single_multi_counterexample:
  "single_reading_of (single_handler ex_crypto ex_config
      (ex_world (Response 200 ex_body_235_70) (Response 200 ex_body_180_40)) ex_get)
   \<noteq> multi_reading_of (handler ex_crypto ex_config
      (ex_world (Response 200 ex_body_235_70) (Response 200 ex_body_180_40)) ex_get
      initial_cache)
   \<and> single_reading_of (single_handler ex_crypto ex_config
      (ex_world (Response 200 ex_body_235_70) (Response 200 ex_body_180_40)) ex_get)
     = Some (47 / 2, 70)
   \<and> multi_reading_of (handler ex_crypto ex_config
      (ex_world (Response 200 ex_body_235_70) (Response 200 ex_body_180_40)) ex_get
      initial_cache)
     = Some (23, 65)"
  by (simp add: single_reading_of_def multi_reading_of_def ex_single_handler ex_handler_fresh
      ex_payload_def)

section \<open>The timestamp that is stored (C10)\<close>

text \<open>
  C10. When an invocation has fetched from the platform and responds with a payload, the
  timestamp it stores is the clock reading taken at the start of the invocation, before the
  token and device calls. So a later check at time \<open>t\<close> hits exactly when \<open>t\<close> is less than
  five minutes after that start; counted from any moment \<open>written\<close>, the entry stays fresh
  for five minutes less the time from the start to \<open>written\<close>.
\<close>

theorem cached_timestamp_is_invocation_start:
  assumes "body (sent (handler cr cfg w req c)) = Readings p"
    and "calls (handler cr cfg w req c) \<noteq> []"
  shows "lastFetchTimestamp (cache_after (handler cr cfg w req c)) = clock_now w
         \<and> cachedData (cache_after (handler cr cfg w req c)) = Some p
         \<and> (\<forall>t. (cache_get (cache_after (handler cr cfg w req c)) t = Some p) =
                (t - clock_now w < 5 * 60 * 1000))
         \<and> (\<forall>written t. (cache_get (cache_after (handler cr cfg w req c)) t = Some p) =
                (t - written < 5 * 60 * 1000 - (written - clock_now w)))"
proof -
  from handler_outcome [of cr cfg w req c] assms obtain q where
    "handler cr cfg w req c =
       \<lparr>sent = \<lparr>status = 200, body = Readings q\<rparr>,
        cache_after = \<lparr>cachedData = Some q, lastFetchTimestamp = clock_now w\<rparr>,
        calls = calls (handler cr cfg w req c)\<rparr>"
    by (elim disjE conjE exE) simp_all
  with assms(1) have "cache_after (handler cr cfg w req c) =
          \<lparr>cachedData = Some p, lastFetchTimestamp = clock_now w\<rparr>"
    by (cases "handler cr cfg w req c") simp
  then show ?thesis
    by (auto simp: cache_get_def CACHE_DURATION_def)
qed

text \<open>
  The theorem on the sample platform, whose clock reads 1000 ms at the start and 1002 ms
  at the device calls: the stored timestamp is 1000, and the entry expires at 301000 ms.
\<close>

theorem cached_timestamp_is_invocation_start_witness:
  "body (sent (handler ex_crypto ex_config
      (ex_world (Response 200 ex_body_235_70) (Response 200 ex_body_180_40)) ex_get initial_cache))
     = Readings ex_payload
   \<and> calls (handler ex_crypto ex_config
      (ex_world (Response 200 ex_body_235_70) (Response 200 ex_body_180_40)) ex_get initial_cache)
     \<noteq> []
   \<and> clock_api (ex_world (Response 200 ex_body_235_70) (Response 200 ex_body_180_40)) = 1002
   \<and> lastFetchTimestamp (cache_after (handler ex_crypto ex_config
      (ex_world (Response 200 ex_body_235_70) (Response 200 ex_body_180_40)) ex_get initial_cache))
     = 1000
   \<and> cache_get (cache_after (handler ex_crypto ex_config
      (ex_world (Response 200 ex_body_235_70) (Response 200 ex_body_180_40)) ex_get initial_cache))
       300999 = Some ex_payload
   \<and> cache_get (cache_after (handler ex_crypto ex_config
      (ex_world (Response 200 ex_body_235_70) (Response 200 ex_body_180_40)) ex_get initial_cache))
       301000 = None"
proof -
  let ?w = "ex_world (Response 200 ex_body_235_70) (Response 200 ex_body_180_40)"
  have h1: "body (sent (handler ex_crypto ex_config ?w ex_get initial_cache)) = Readings ex_payload"
    by (simp add: ex_handler_fresh)
  have h2: "calls (handler ex_crypto ex_config ?w ex_get initial_cache) \<noteq> []"
    by (simp add: ex_handler_fresh)
  note th = cached_timestamp_is_invocation_start [OF h1 h2]
  have "cache_get (cache_after (handler ex_crypto ex_config ?w ex_get initial_cache)) 301000
          \<noteq> Some ex_payload"
    using th by (simp add: ex_world_sel)
  then have miss: "cache_get (cache_after (handler ex_crypto ex_config ?w ex_get initial_cache))
      301000 = None"
    by (simp add: ex_handler_fresh cache_get_def CACHE_DURATION_def)
  show ?thesis
    using h1 h2 th miss by (simp add: ex_world_sel)
qed

end
